theory Spec2Isabelle
  imports Main "HOL-Library.Word"
begin

unbundle bit_operations_syntax

section \<open>JavaScript values\<close>

text \<open>Values that arrive as JSON (confirmation items of a request, bodies of remote
  responses). Numbers are modelled by integers; an object is the list of its properties.\<close>

datatype jsval =
    JUndefined
  | JNull
  | JBool bool
  | JNum int
  | JStr string
  | JArr "jsval list"
  | JObj "(string \<times> jsval) list"

text \<open>Truthiness, as \<open>!x\<close>, \<open>x || y\<close> and \<open>x && y\<close> read it.\<close>

fun truthy :: "jsval \<Rightarrow> bool" where
  "truthy JUndefined = False"
| "truthy JNull = False"
| "truthy (JBool b) = b"
| "truthy (JNum n) = (n \<noteq> 0)"
| "truthy (JStr s) = (s \<noteq> [])"
| "truthy (JArr xs) = True"
| "truthy (JObj kvs) = True"

definition js_or :: "jsval \<Rightarrow> jsval \<Rightarrow> jsval" where
  "js_or a b = (if truthy a then a else b)"

text \<open>Property access \<open>x.k\<close> on a value that is neither \<open>null\<close> nor \<open>undefined\<close>.\<close>

fun get_prop :: "jsval \<Rightarrow> string \<Rightarrow> jsval" where
  "get_prop (JObj kvs) k = (case map_of kvs k of Some v \<Rightarrow> v | None \<Rightarrow> JUndefined)"
| "get_prop _ k = JUndefined"

definition nullish :: "jsval \<Rightarrow> bool" where
  "nullish x = (x = JUndefined \<or> x = JNull)"

text \<open>Optional chaining \<open>x?.k\<close>.\<close>

definition opt_prop :: "jsval \<Rightarrow> string \<Rightarrow> jsval" where
  "opt_prop x k = (if nullish x then JUndefined else get_prop x k)"

section \<open>Runtime primitives used by the server modules\<close>

text \<open>
  The server modules call into the JavaScript runtime for byte buffers, hex and base64
  text, SHA-1 and HMAC. These are modelled here as executable functions on lists of
  8-bit words. A JavaScript string is modelled by the list of its UTF-8 bytes, so
  \<open>Buffer.from(s, 'utf8')\<close> is the list of the characters read as bytes.
\<close>

type_synonym byte = "8 word"
type_synonym word32 = "32 word"

definition bytes_of_string :: "string \<Rightarrow> byte list" where
  "bytes_of_string s = map (\<lambda>c. of_char c) s"

subsection \<open>Hexadecimal and base64 text\<close>

definition hex_value :: "char \<Rightarrow> nat option" where
  "hex_value c =
     (let n = (of_char c :: nat) in
      if 48 \<le> n \<and> n \<le> 57 then Some (n - 48)
      else if 97 \<le> n \<and> n \<le> 102 then Some (n - 87)
      else if 65 \<le> n \<and> n \<le> 70 then Some (n - 55)
      else None)"

text \<open>The test \<open>secret.match(/^[0-9a-f]{40}$/i)\<close>.\<close>

definition is_hex40 :: "string \<Rightarrow> bool" where
  "is_hex40 s = (length s = 40 \<and> list_all (\<lambda>c. hex_value c \<noteq> None) s)"

text \<open>\<open>Buffer.from(s, 'hex')\<close>: one byte per pair of digits, stopping at the first
  pair that is not two hexadecimal digits.\<close>

fun hex_decode :: "string \<Rightarrow> byte list" where
  "hex_decode (a # b # rest) =
     (case (hex_value a, hex_value b) of
        (Some x, Some y) \<Rightarrow> of_nat (16 * x + y) # hex_decode rest
      | _ \<Rightarrow> [])"
| "hex_decode _ = []"

definition b64_value :: "char \<Rightarrow> nat option" where
  "b64_value c =
     (let n = (of_char c :: nat) in
      if 65 \<le> n \<and> n \<le> 90 then Some (n - 65)
      else if 97 \<le> n \<and> n \<le> 122 then Some (n - 71)
      else if 48 \<le> n \<and> n \<le> 57 then Some (n + 4)
      else if n = 43 \<or> n = 45 then Some 62
      else if n = 47 \<or> n = 95 then Some 63
      else None)"

fun b64_groups :: "nat list \<Rightarrow> byte list" where
  "b64_groups (a # b # c # d # rest) =
     of_nat (a * 4 + b div 16) # of_nat ((b mod 16) * 16 + c div 4) #
     of_nat ((c mod 4) * 64 + d) # b64_groups rest"
| "b64_groups [a, b, c] = [of_nat (a * 4 + b div 16), of_nat ((b mod 16) * 16 + c div 4)]"
| "b64_groups [a, b] = [of_nat (a * 4 + b div 16)]"
| "b64_groups _ = []"

text \<open>\<open>Buffer.from(s, 'base64')\<close>: the decoder is lenient. It stops at the first
  \<open>=\<close>, skips every character outside the (standard or URL-safe) alphabet, and
  never fails; text with fewer than two alphabet characters decodes to the empty buffer.\<close>

definition base64_decode :: "string \<Rightarrow> byte list" where
  "base64_decode s = b64_groups (List.map_filter b64_value (takeWhile (\<lambda>c. c \<noteq> CHR ''='') s))"

definition b64_alphabet :: string where
  "b64_alphabet = ''ABCDEFGHIJKLMNOPQRSTUVWXYZabcdefghijklmnopqrstuvwxyz0123456789+/''"

definition b64_char :: "nat \<Rightarrow> char" where
  "b64_char n = b64_alphabet ! (n mod 64)"

text \<open>\<open>digest('base64')\<close>: standard alphabet, padded with \<open>=\<close>.\<close>

fun base64_encode :: "byte list \<Rightarrow> string" where
  "base64_encode (a # b # c # rest) =
     b64_char (unat a div 4) # b64_char ((unat a mod 4) * 16 + unat b div 16) #
     b64_char ((unat b mod 16) * 4 + unat c div 64) # b64_char (unat c mod 64) #
     base64_encode rest"
| "base64_encode [a, b] =
     [b64_char (unat a div 4), b64_char ((unat a mod 4) * 16 + unat b div 16),
      b64_char ((unat b mod 16) * 4), CHR ''='']"
| "base64_encode [a] =
     [b64_char (unat a div 4), b64_char ((unat a mod 4) * 16), CHR ''='', CHR ''='']"
| "base64_encode [] = []"

subsection \<open>SHA-1 and HMAC-SHA1\<close>

text \<open>\<open>crypto.createHmac('sha1', key).update(buf).digest()\<close>, written out after
  FIPS 180 (SHA-1) and RFC 2104 (HMAC) on 32-bit words.\<close>

definition be32 :: "byte \<Rightarrow> byte \<Rightarrow> byte \<Rightarrow> byte \<Rightarrow> word32" where
  "be32 b0 b1 b2 b3 =
     push_bit 24 (ucast b0) OR push_bit 16 (ucast b1) OR push_bit 8 (ucast b2) OR ucast b3"

definition bytes_of_word32 :: "word32 \<Rightarrow> byte list" where
  "bytes_of_word32 w =
     [ucast (drop_bit 24 w), ucast (drop_bit 16 w), ucast (drop_bit 8 w), ucast w]"

definition bytes_of_word64 :: "64 word \<Rightarrow> byte list" where
  "bytes_of_word64 w = map (\<lambda>i. ucast (drop_bit (8 * (7 - i)) w)) [0..<8]"

fun words_of_bytes :: "byte list \<Rightarrow> word32 list" where
  "words_of_bytes (b0 # b1 # b2 # b3 # bs) = be32 b0 b1 b2 b3 # words_of_bytes bs"
| "words_of_bytes _ = []"

definition sha1_pad :: "byte list \<Rightarrow> byte list" where
  "sha1_pad m =
     m @ [0x80] @ replicate ((119 - length m mod 64) mod 64) 0 @
     bytes_of_word64 (push_bit 3 (of_nat (length m)))"

definition rotl :: "nat \<Rightarrow> word32 \<Rightarrow> word32" where
  "rotl n w = push_bit n w OR drop_bit (32 - n) w"

fun sha1_schedule :: "nat \<Rightarrow> word32 list \<Rightarrow> word32 list" where
  "sha1_schedule 0 ws = ws"
| "sha1_schedule (Suc n) ws =
     sha1_schedule n
       (ws @ [rotl 1 (ws ! (length ws - 3) XOR ws ! (length ws - 8) XOR
                      ws ! (length ws - 14) XOR ws ! (length ws - 16))])"

definition sha1_f :: "nat \<Rightarrow> word32 \<Rightarrow> word32 \<Rightarrow> word32 \<Rightarrow> word32" where
  "sha1_f t b c d =
     (if t < 20 then (b AND c) OR (NOT b AND d)
      else if t < 40 then b XOR c XOR d
      else if t < 60 then (b AND c) OR (b AND d) OR (c AND d)
      else b XOR c XOR d)"

definition sha1_k :: "nat \<Rightarrow> word32" where
  "sha1_k t =
     (if t < 20 then 0x5A827999 else if t < 40 then 0x6ED9EBA1
      else if t < 60 then 0x8F1BBCDC else 0xCA62C1D6)"

type_synonym sha1_state = "word32 \<times> word32 \<times> word32 \<times> word32 \<times> word32"

fun sha1_rounds :: "nat \<Rightarrow> word32 list \<Rightarrow> sha1_state \<Rightarrow> sha1_state" where
  "sha1_rounds t [] s = s"
| "sha1_rounds t (w # ws) (a, b, c, d, e) =
     sha1_rounds (Suc t) ws
       (rotl 5 a + sha1_f t b c d + e + sha1_k t + w, a, rotl 30 b, c, d)"

definition sha1_block :: "sha1_state \<Rightarrow> byte list \<Rightarrow> sha1_state" where
  "sha1_block h blk =
     (case h of (h0, h1, h2, h3, h4) \<Rightarrow>
        (case sha1_rounds 0 (sha1_schedule 64 (words_of_bytes blk)) h of
           (a, b, c, d, e) \<Rightarrow> (h0 + a, h1 + b, h2 + c, h3 + d, h4 + e)))"

function sha1_blocks :: "sha1_state \<Rightarrow> byte list \<Rightarrow> sha1_state" where
  "sha1_blocks h bs =
     (if length bs < 64 then h else sha1_blocks (sha1_block h (take 64 bs)) (drop 64 bs))"
  by pat_completeness auto
termination
  by (relation "measure (\<lambda>(h, bs). length bs)") auto

declare sha1_blocks.simps [simp del]

definition sha1_init :: sha1_state where
  "sha1_init = (0x67452301, 0xEFCDAB89, 0x98BADCFE, 0x10325476, 0xC3D2E1F0)"

definition sha1 :: "byte list \<Rightarrow> byte list" where
  "sha1 m =
     (case sha1_blocks sha1_init (sha1_pad m) of
        (h0, h1, h2, h3, h4) \<Rightarrow>
          bytes_of_word32 h0 @ bytes_of_word32 h1 @ bytes_of_word32 h2 @
          bytes_of_word32 h3 @ bytes_of_word32 h4)"

definition hmac_sha1 :: "byte list \<Rightarrow> byte list \<Rightarrow> byte list" where
  "hmac_sha1 key msg =
     (let k0 = (if length key > 64 then sha1 key else key);
          k = k0 @ replicate (64 - length k0) 0
      in sha1 (map (\<lambda>b. b XOR 0x5C) k @ sha1 (map (\<lambda>b. b XOR 0x36) k @ msg)))"

subsection \<open>Errors\<close>

text \<open>Errors are values. Each constructor stands for one \<open>throw\<close> of the server
  code (or of the runtime) and carries the data that the source puts into the message:
  \<^item> \<open>MissingSharedSecret\<close>: \<open>'Missing shared secret'\<close>;
  \<^item> \<open>MissingIdentitySecret\<close>: \<open>'Missing identity secret'\<close>;
  \<^item> \<open>RangeError v\<close>: the runtime's out-of-range error of \<open>writeUInt32BE\<close>;
  \<^item> \<open>TypeError\<close>: reading a property of \<open>null\<close> or \<open>undefined\<close>;
  \<^item> \<open>IdentitySecretNotFound\<close>: \<open>'Identity secret not found. ...'\<close>;
  \<^item> \<open>InvalidOperation\<close>: \<open>'Invalid operation. Must be "allow" or "cancel"'\<close>;
  \<^item> \<open>NoConfirmationsProvided\<close>: \<open>'No confirmations provided'\<close>;
  \<^item> \<open>LOGIN_REQUIRED\<close>: \<open>'LOGIN_REQUIRED'\<close>;
  \<^item> \<open>ConfirmationMissing i id key\<close>: \<open>'Confirmation i missing id (id) or key (key)'\<close>;
  \<^item> \<open>HttpFetchError status msg\<close>: \<open>'HTTP status: msg'\<close> of \<open>fetchConfirmations\<close>;
  \<^item> \<open>HttpActError status id\<close>: \<open>'HTTP status: Failed to act on confirmation id'\<close>;
  \<^item> \<open>FailedToProcess ids\<close>: \<open>'Failed to process confirmations: ' + ids.join(', ')\<close>;
  \<^item> \<open>NetworkFailure msg\<close>: the HTTP client rejected (no response, timeout);
  \<^item> \<open>InvalidTimeValue\<close>: the runtime's range error of \<open>toISOString\<close> on a date that
    denotes no instant.\<close>

datatype error =
    MissingSharedSecret
  | MissingIdentitySecret
  | RangeError int
  | TypeError
  | IdentitySecretNotFound
  | InvalidOperation
  | NoConfirmationsProvided
  | LOGIN_REQUIRED
  | ConfirmationMissing nat jsval jsval
  | HttpFetchError int jsval
  | HttpActError int jsval
  | FailedToProcess "jsval list"
  | NetworkFailure string
  | InvalidTimeValue

subsection \<open>Buffers\<close>

text \<open>\<open>Buffer.alloc(n)\<close> is zero-filled. \<open>buf.writeUInt32BE(value, offset)\<close> throws a
  range error when the value is not in \<open>0 .. 2^32 - 1\<close> or the four bytes do not fit;
  otherwise it stores the value big-endian. \<open>src.copy(dst, at)\<close> overwrites from
  \<open>at\<close> on, as far as \<open>dst\<close> reaches.\<close>

definition buffer_alloc :: "nat \<Rightarrow> byte list" where
  "buffer_alloc n = replicate n 0"

definition writeUInt32BE :: "int \<Rightarrow> nat \<Rightarrow> byte list \<Rightarrow> error + byte list" where
  "writeUInt32BE v off buf =
     (if v < 0 \<or> 4294967295 < v then Inl (RangeError v)
      else if length buf < off + 4 then Inl (RangeError (int off))
      else Inr (take off buf @ bytes_of_word32 (word_of_int v) @ drop (off + 4) buf))"

definition buffer_copy :: "byte list \<Rightarrow> byte list \<Rightarrow> nat \<Rightarrow> byte list" where
  "buffer_copy src dst at =
     (if length dst \<le> at then dst
      else take at dst @ take (length dst - at) src @ drop (at + length src) dst)"

text \<open>Indexing a buffer past its end gives \<open>undefined\<close>, which the bitwise
  operators read as 0.\<close>

definition byte_at :: "byte list \<Rightarrow> nat \<Rightarrow> byte" where
  "byte_at buf i = (if i < length buf then buf ! i else 0)"

subsection \<open>Numbers and values as text\<close>

text \<open>\<open>String(n)\<close> for an integer \<open>n\<close>: its decimal digits.\<close>

function digits :: "int \<Rightarrow> string" where
  "digits n = (if n < 10 then [char_of (48 + n)] else digits (n div 10) @ [char_of (48 + n mod 10)])"
  by pat_completeness auto
termination
  by (relation "measure nat") auto

declare digits.simps [simp del]

definition string_of_int :: "int \<Rightarrow> string" where
  "string_of_int i = (if i < 0 then CHR ''-'' # digits (- i) else digits i)"

text \<open>\<open>String(x)\<close>. A number that is a safe integer (at most \<open>2^53 - 1\<close> in
  absolute value) prints its decimal digits. Beyond that, \<open>String\<close> prints the shortest
  decimal that reads back as the same number, padded with zeros, and from \<open>1e21\<close> on in
  exponent form; this text is taken from the parameter \<open>big\<close>. An array prints its
  elements separated by commas, with \<open>null\<close> and \<open>undefined\<close> elements printed as
  nothing.\<close>

definition MAX_SAFE_INTEGER :: int where
  "MAX_SAFE_INTEGER = 9007199254740991"

fun join :: "string \<Rightarrow> string list \<Rightarrow> string" where
  "join sep [] = []"
| "join sep [x] = x"
| "join sep (x # y # ys) = x @ sep @ join sep (y # ys)"

fun js_string :: "(int \<Rightarrow> string) \<Rightarrow> jsval \<Rightarrow> string" where
  "js_string big JUndefined = ''undefined''"
| "js_string big JNull = ''null''"
| "js_string big (JBool b) = (if b then ''true'' else ''false'')"
| "js_string big (JNum n) = (if \<bar>n\<bar> \<le> MAX_SAFE_INTEGER then string_of_int n else big n)"
| "js_string big (JStr s) = s"
| "js_string big (JArr xs) =
     join '','' (map (\<lambda>x. if x = JUndefined \<or> x = JNull then [] else js_string big x) xs)"
| "js_string big (JObj kvs) = ''[object Object]''"

text \<open>The remainder operator \<open>%\<close> takes the sign of the dividend; \<open>s.charAt(i)\<close> is
  the empty string outside the string.\<close>

definition js_rem :: "int \<Rightarrow> int \<Rightarrow> int" where
  "js_rem a b = sgn a * (\<bar>a\<bar> mod \<bar>b\<bar>)"

definition charAt :: "string \<Rightarrow> int \<Rightarrow> string" where
  "charAt s i = (if 0 \<le> i \<and> i < int (length s) then [s ! nat i] else [])"

section \<open>steamCrypto: secrets and request signatures\<close>

text \<open>A secret as the functions receive it: absent (\<open>null\<close>, \<open>undefined\<close>),
  a text, or an already decoded buffer.\<close>

datatype secret = NoSecret | SecretText string | SecretBuffer "byte list"

text \<open>\<open>!secret\<close>: absent or the empty text. A buffer is an object, hence truthy even
  when it is empty.\<close>

definition secret_falsy :: "secret \<Rightarrow> bool" where
  "secret_falsy s = (case s of NoSecret \<Rightarrow> True | SecretText t \<Rightarrow> t = [] | SecretBuffer b \<Rightarrow> False)"

definition bufferizeSecret :: "secret \<Rightarrow> byte list option" where
  "bufferizeSecret secret =
     (if secret_falsy secret then None
      else case secret of
        SecretBuffer b \<Rightarrow> Some b
      | SecretText s \<Rightarrow> if is_hex40 s then Some (hex_decode s) else Some (base64_decode s)
      | NoSecret \<Rightarrow> None)"

definition generateConfirmationKey :: "secret \<Rightarrow> int \<Rightarrow> string \<Rightarrow> error + string" where
  "generateConfirmationKey identitySecret time tag =
     (case bufferizeSecret identitySecret of
        None \<Rightarrow> Inl MissingIdentitySecret
      | Some secretBuf \<Rightarrow>
          (let tagBuf = bytes_of_string tag;
               buf = buffer_alloc (8 + length tagBuf)
           in case writeUInt32BE 0 0 buf of
                Inl e \<Rightarrow> Inl e
              | Inr buf1 \<Rightarrow>
                  (case writeUInt32BE time 4 buf1 of
                     Inl e \<Rightarrow> Inl e
                   | Inr buf2 \<Rightarrow>
                       (let buf3 = (if length tagBuf > 0 then buffer_copy tagBuf buf2 8 else buf2)
                        in Inr (base64_encode (hmac_sha1 secretBuf buf3))))))"

text \<open>\<open>URLSearchParams\<close> as an ordered list of pairs; \<open>set\<close> replaces the value of the
  first pair with that name and drops later ones, or appends a new pair.\<close>

type_synonym params = "(string \<times> string) list"

fun params_set :: "string \<Rightarrow> string \<Rightarrow> params \<Rightarrow> params" where
  "params_set k v [] = [(k, v)]"
| "params_set k v ((k', v') # ps) =
     (if k' = k then (k, v) # filter (\<lambda>p. fst p \<noteq> k) ps else (k', v') # params_set k v ps)"

section \<open>steamGuard: the login code\<close>

definition STEAM_CHARS :: string where
  "STEAM_CHARS = ''23456789BCDFGHJKMNPQRTVWXY''"

text \<open>The loop \<open>for (let i = 0; i < 5; i++)\<close> of \<open>generateSteamGuardCode\<close>.\<close>

function code_loop :: "nat \<Rightarrow> int \<Rightarrow> string \<Rightarrow> string" where
  "code_loop i fullCode code =
     (if i < 5
      then code_loop (i + 1) (fullCode div int (length STEAM_CHARS))
             (code @ charAt STEAM_CHARS (js_rem fullCode (int (length STEAM_CHARS))))
      else code)"
  by pat_completeness auto
termination
  by (relation "measure (\<lambda>(i, fullCode, code). 5 - i)") auto

declare code_loop.simps [simp del]

text \<open>The bitwise operators work on 32-bit integers and give a signed result.\<close>

definition fullCode_of :: "byte list \<Rightarrow> nat \<Rightarrow> int" where
  "fullCode_of hmac offset =
     sint (push_bit 24 (ucast (byte_at hmac offset) AND (0x7f :: word32)) OR
           push_bit 16 (ucast (byte_at hmac (offset + 1)) AND (0xff :: word32)) OR
           push_bit 8 (ucast (byte_at hmac (offset + 2)) AND (0xff :: word32)) OR
           (ucast (byte_at hmac (offset + 3)) AND (0xff :: word32)))"

definition generateSteamGuardCode :: "secret \<Rightarrow> int \<Rightarrow> error + string" where
  "generateSteamGuardCode sharedSecretInput timestampMs =
     (case bufferizeSecret sharedSecretInput of
        None \<Rightarrow> Inl MissingSharedSecret
      | Some sharedSecret \<Rightarrow>
          (let time = timestampMs div 1000;
               timeStep = time div 30;
               timeBuffer = buffer_alloc 8
           in case writeUInt32BE 0 0 timeBuffer of
                Inl e \<Rightarrow> Inl e
              | Inr tb1 \<Rightarrow>
                  (case writeUInt32BE timeStep 4 tb1 of
                     Inl e \<Rightarrow> Inl e
                   | Inr tb2 \<Rightarrow>
                       (let hmac = hmac_sha1 sharedSecret tb2;
                            offset = unat (byte_at hmac 19 AND 0x0f)
                        in Inr (code_loop 0 (fullCode_of hmac offset) [])))))"


section \<open>storage: accounts and the session store\<close>

text \<open>A stored time is the text written by \<open>toISOString\<close>; \<open>new Date(text).getTime()\<close>
  reads it back as milliseconds, or as \<open>NaN\<close> when the text is no date. A field of a
  record that is absent is \<open>None\<close>; so is a token that is there but empty (falsy). A time
  field that is there but falsy (\<open>null\<close>, the empty text) is \<open>Some Blank\<close>.\<close>

datatype jstime = Time int | InvalidDate | Blank

record session =
  sessionid :: "string option"
  steamLoginSecure :: "string option"
  oAuthToken :: "string option"
  createdAt :: "jstime option"
  lastUsed :: "jstime option"
  lastRefreshed :: "jstime option"

text \<open>An account as \<open>loadAccounts\<close> builds it; of \<open>raw_mafile\<close> only the three
  \<open>Session\<close> fields that the server reads are kept.\<close>

record account =
  acc_id :: string
  steamid :: string
  account_name :: string
  shared_secret :: secret
  identity_secret :: secret
  device_id :: string
  mafile_SessionID :: "string option"
  mafile_SteamLoginSecure :: "string option"
  mafile_AccessToken :: "string option"

text \<open>The state the server functions read and write: the clock (\<open>Date.now()\<close>, in
  milliseconds, held fixed during one call), the two module variables of steamTime, the
  contents of the sessions file, and the one property outside the file that the storage
  functions can come to write and read, \<open>Object.prototype.lastUsed\<close>.

  The sessions file holds an object; \<open>store_sessions\<close> is its member \<open>sessions\<close>, the
  records by account id, or \<open>None\<close> when the object in the file has no such member (a
  file that is missing or is not JSON reads as \<open>{ sessions: {} }\<close>).
  \<open>proto_lastUsed\<close> is \<open>None\<close> as long as \<open>Object.prototype\<close> has no property
  \<open>lastUsed\<close>, as in a process that has just started.\<close>

record world =
  now :: int
  timeOffset :: int
  isTimeAligned :: bool
  store_sessions :: "(string \<rightharpoonup> session) option"
  proto_lastUsed :: "jstime option"

text \<open>The records of the file: the own properties of \<open>store.sessions\<close>.\<close>

definition sessions :: "world \<Rightarrow> string \<rightharpoonup> session" where
  "sessions w = (case store_sessions w of None \<Rightarrow> Map.empty | Some m \<Rightarrow> m)"

definition SESSION_EXPIRY_MS :: int where
  "SESSION_EXPIRY_MS = 30 * 24 * 60 * 60 * 1000"

definition SESSION_IDLE_TIMEOUT_MS :: int where
  "SESSION_IDLE_TIMEOUT_MS = 7 * 24 * 60 * 60 * 1000"

definition str_truthy :: "string option \<Rightarrow> bool" where
  "str_truthy x = (case x of None \<Rightarrow> False | Some s \<Rightarrow> s \<noteq> [])"

definition str_or :: "string option \<Rightarrow> string option \<Rightarrow> string option" where
  "str_or a b = (if str_truthy a then a else b)"

text \<open>A field inside a template literal.\<close>

definition str_text :: "string option \<Rightarrow> string" where
  "str_text x = (case x of None \<Rightarrow> ''undefined'' | Some s \<Rightarrow> s)"

text \<open>\<open>store.sessions[accountId]\<close> reads a property of a plain object made by
  \<open>JSON.parse\<close>. Where the object has no own property of that name, the name of a member
  of \<open>Object.prototype\<close> finds that member: a function, or for \<open>__proto__\<close> the prototype
  itself. Such a value is truthy and has none of the fields of a record.\<close>

definition inherited_member :: "string \<Rightarrow> bool" where
  "inherited_member name =
     (name \<in> set [''constructor'', ''__proto__'', ''hasOwnProperty'', ''isPrototypeOf'',
        ''propertyIsEnumerable'', ''toLocaleString'', ''toString'', ''valueOf'',
        ''__defineGetter__'', ''__defineSetter__'', ''__lookupGetter__'',
        ''__lookupSetter__''])"

text \<open>What the lookup \<open>store.sessions && store.sessions[accountId]\<close> gives: nothing
  (falsy), a record of the file, or a member of \<open>Object.prototype\<close>.\<close>

datatype found = Missing | Stored session | Member

definition lookup_session :: "world \<Rightarrow> string \<Rightarrow> found" where
  "lookup_session w accountId =
     (case store_sessions w of
        None \<Rightarrow> Missing
      | Some m \<Rightarrow>
          (case m accountId of
             Some s \<Rightarrow> Stored s
           | None \<Rightarrow> if inherited_member accountId then Member else Missing))"

definition getSessionCookiesForAccount :: "world \<Rightarrow> string \<Rightarrow> found" where
  "getSessionCookiesForAccount w accountId = lookup_session w accountId"

text \<open>The fields \<open>sessionid\<close> and \<open>steamLoginSecure\<close> of what the lookup gave
  (\<open>saved?.sessionid\<close>); a member of \<open>Object.prototype\<close> has neither.\<close>

definition found_sessionid :: "found \<Rightarrow> string option" where
  "found_sessionid f = (case f of Stored s \<Rightarrow> sessionid s | _ \<Rightarrow> None)"

definition found_steamLoginSecure :: "found \<Rightarrow> string option" where
  "found_steamLoginSecure f = (case f of Stored s \<Rightarrow> steamLoginSecure s | _ \<Rightarrow> None)"

text \<open>\<open>session.lastUsed\<close> of a record: its own field or, when it has none, the property
  of \<open>Object.prototype\<close>.\<close>

definition read_lastUsed :: "world \<Rightarrow> session \<Rightarrow> jstime option" where
  "read_lastUsed w s = (case lastUsed s of None \<Rightarrow> proto_lastUsed w | Some l \<Rightarrow> Some l)"

definition time_truthy :: "jstime option \<Rightarrow> bool" where
  "time_truthy t = (case t of None \<Rightarrow> False | Some Blank \<Rightarrow> False | Some _ \<Rightarrow> True)"

text \<open>\<open>now - new Date(t).getTime() > limit\<close>; every comparison with \<open>NaN\<close> is false.\<close>

definition elapsed_since :: "int \<Rightarrow> jstime option \<Rightarrow> int option" where
  "elapsed_since n t = (case t of Some (Time c) \<Rightarrow> Some (n - c) | _ \<Rightarrow> None)"

definition exceeds :: "int option \<Rightarrow> int \<Rightarrow> bool" where
  "exceeds e limit = (case e of None \<Rightarrow> False | Some a \<Rightarrow> limit < a)"

text \<open>\<open>Math.floor(e / (24 * 60 * 60 * 1000))\<close>, as the log lines print it.\<close>

definition whole_days :: "int option \<Rightarrow> int" where
  "whole_days e = (case e of None \<Rightarrow> 0 | Some a \<Rightarrow> a div (24 * 60 * 60 * 1000))"

text \<open>\<open>isSessionExpired\<close> returns a flag and writes one log line on the branch that
  found the session expired by age or by inactivity; the line (with the number of days it
  prints) is returned with the flag.\<close>

datatype expiry_log = ExpiredByAge int | ExpiredByInactivity int

definition isSessionExpired :: "world \<Rightarrow> found \<Rightarrow> bool \<times> expiry_log option" where
  "isSessionExpired w f =
     (case f of
        Missing \<Rightarrow> (True, None)
      | Member \<Rightarrow> (True, None)
      | Stored session \<Rightarrow>
          if \<not> time_truthy (createdAt session) then (True, None)
          else
            (let age = elapsed_since (now w) (createdAt session) in
             if exceeds age SESSION_EXPIRY_MS
             then (True, Some (ExpiredByAge (whole_days age)))
             else if time_truthy (read_lastUsed w session)
             then (let idleTime = elapsed_since (now w) (read_lastUsed w session) in
                   if exceeds idleTime SESSION_IDLE_TIMEOUT_MS
                   then (True, Some (ExpiredByInactivity (whole_days idleTime)))
                   else (False, None))
             else (False, None)))"

datatype reason = NO_SESSION | INCOMPLETE_SESSION | SESSION_EXPIRED

datatype validation = Invalid reason | Valid session

definition isSessionValid :: "world \<Rightarrow> string \<Rightarrow> validation" where
  "isSessionValid w accountId =
     (case getSessionCookiesForAccount w accountId of
        Missing \<Rightarrow> Invalid NO_SESSION
      | Member \<Rightarrow> Invalid INCOMPLETE_SESSION
      | Stored session \<Rightarrow>
          if \<not> str_truthy (sessionid session) \<or> \<not> str_truthy (steamLoginSecure session)
          then Invalid INCOMPLETE_SESSION
          else if fst (isSessionExpired w (Stored session)) then Invalid SESSION_EXPIRED
          else Valid session)"

text \<open>\<open>getSessionAge\<close> gives figures for a log line. Of these only
  \<open>new Date(session.lastUsed).toISOString()\<close> matters to its caller: it is evaluated for a
  record with a \<open>createdAt\<close>, and throws when \<open>lastUsed\<close> is truthy and no date.\<close>

definition getSessionAge_throws :: "world \<Rightarrow> string \<Rightarrow> bool" where
  "getSessionAge_throws w accountId =
     (case getSessionCookiesForAccount w accountId of
        Stored s \<Rightarrow> time_truthy (createdAt s) \<and> read_lastUsed w s = Some InvalidDate
      | _ \<Rightarrow> False)"

text \<open>\<open>setSessionCookiesForAccount\<close> makes \<open>store.sessions\<close> if the file has none, and
  assigns the new record to \<open>store.sessions[accountId]\<close>. For the id \<open>__proto__\<close>
  with no own property of that name, the assignment sets the prototype of the object and
  adds no property, so that the file written afterwards holds no record for the id. Before
  it writes the file it calls \<open>getSessionAge\<close>, which reads the file as it was; when that
  throws, nothing is written.\<close>

definition setSessionCookiesForAccount ::
    "world \<Rightarrow> string \<Rightarrow> string option \<Rightarrow> string option \<Rightarrow> string option \<Rightarrow> error + world" where
  "setSessionCookiesForAccount w accountId sid token oauth =
     (let timestamp = Some (Time (now w));
          existingCreated = (case sessions w accountId of
                               None \<Rightarrow> None
                             | Some existing \<Rightarrow> createdAt existing);
          created = (if time_truthy existingCreated then existingCreated else timestamp);
          record = \<lparr>sessionid = sid, steamLoginSecure = token, oAuthToken = oauth,
                    createdAt = created, lastUsed = timestamp, lastRefreshed = timestamp\<rparr>
      in if getSessionAge_throws w accountId then Inl InvalidTimeValue
         else if accountId = ''__proto__'' \<and> sessions w accountId = None
         then Inr (w\<lparr>store_sessions := Some (sessions w)\<rparr>)
         else Inr (w\<lparr>store_sessions := Some ((sessions w)(accountId \<mapsto> record))\<rparr>))"

text \<open>\<open>updateSessionLastUsed\<close> writes \<open>lastUsed\<close> on whatever the lookup gave and
  saves the file. On a record, the file changes. On \<open>Object.prototype\<close> (the id
  \<open>__proto__\<close> with no record of that name) the write makes \<open>lastUsed\<close> a property of
  every object, and the file keeps its contents. On a function of \<open>Object.prototype\<close>
  the property lands on that function, where nothing reads it.\<close>

definition updateSessionLastUsed :: "world \<Rightarrow> string \<Rightarrow> world" where
  "updateSessionLastUsed w accountId =
     (case lookup_session w accountId of
        Missing \<Rightarrow> w
      | Stored s \<Rightarrow>
          w\<lparr>store_sessions := Some ((sessions w)(accountId \<mapsto> s\<lparr>lastUsed := Some (Time (now w))\<rparr>))\<rparr>
      | Member \<Rightarrow>
          if accountId = ''__proto__'' then w\<lparr>proto_lastUsed := Some (Time (now w))\<rparr> else w)"

text \<open>\<open>clearSessionForAccount\<close>: \<open>delete\<close> removes an own property only.\<close>

definition clearSessionForAccount :: "world \<Rightarrow> string \<Rightarrow> world" where
  "clearSessionForAccount w accountId =
     (case lookup_session w accountId of
        Missing \<Rightarrow> w
      | Stored s \<Rightarrow> w\<lparr>store_sessions := Some ((sessions w)(accountId := None))\<rparr>
      | Member \<Rightarrow> w)"

section \<open>The remote service\<close>

text \<open>What the server sends and what comes back. The HTTP client is told to accept
  every status (\<open>validateStatus: () => true\<close>), so a call either gives a response with a
  status and a body, or rejects. The remote service, the JSON parser and the outcome of the
  time query are parameters of the model: \<open>http r n req\<close> is the answer to request
  \<open>req\<close> when \<open>n\<close> requests were sent before it in the same call; \<open>server_time\<close> is
  \<open>parseInt(res.data?.response?.server_time, 10)\<close> of the time query, \<open>None\<close> when the
  query rejects or the field is no number. So is \<open>number_text\<close>, the text that the
  runtime's \<open>String\<close> gives a number beyond the safe integers.\<close>

datatype request = GetList params string | PostOp params string

datatype http_result = Rejected string | Response int jsval

record remote =
  server_time :: "int option"
  http :: "nat \<Rightarrow> request \<Rightarrow> http_result"
  json_parse :: "string \<Rightarrow> jsval option"
  number_text :: "int \<Rightarrow> string"

section \<open>steamTime\<close>

definition alignTime :: "remote \<Rightarrow> world \<Rightarrow> world" where
  "alignTime r w =
     (if isTimeAligned w then w
      else case server_time r of
             None \<Rightarrow> w
           | Some serverTime \<Rightarrow>
               w\<lparr>timeOffset := serverTime - now w div 1000, isTimeAligned := True\<rparr>)"

definition getSteamTime :: "world \<Rightarrow> int" where
  "getSteamTime w = now w div 1000 + timeOffset w"

section \<open>steamCrypto: the signed parameters\<close>

definition generateConfirmationQueryParams :: "world \<Rightarrow> account \<Rightarrow> string \<Rightarrow> error + params" where
  "generateConfirmationQueryParams w acct tag =
     (let time = getSteamTime w in
      case generateConfirmationKey (identity_secret acct) time tag of
        Inl e \<Rightarrow> Inl e
      | Inr key \<Rightarrow>
          Inr (params_set ''tag'' tag
                (params_set ''m'' ''android''
                  (params_set ''t'' (string_of_int time)
                    (params_set ''k'' key
                      (params_set ''a'' (steamid acct)
                        (params_set ''p'' (device_id acct) [])))))))"

section \<open>steamSession\<close>

definition getSessionCookieHeader :: "world \<Rightarrow> account \<Rightarrow> error + string" where
  "getSessionCookieHeader w acct =
     (let saved = getSessionCookiesForAccount w (acc_id acct);
          sid = str_or (found_sessionid saved)
                  (str_or (mafile_SessionID acct) (Some []));
          token = str_or (found_steamLoginSecure saved)
                    (str_or (mafile_SteamLoginSecure acct) (mafile_AccessToken acct))
      in if \<not> str_truthy sid \<or> \<not> str_truthy token then Inl LOGIN_REQUIRED
         else Inr (''sessionid='' @ str_text sid @ ''; steamLoginSecure='' @ str_text token))"


section \<open>confirmations: listing and acting\<close>

text \<open>The module as it stands on steamTime, steamCrypto, steamSession and storage. The
  repository also holds a self-contained copy of it with its own \<open>alignTime\<close>,
  \<open>getSteamTime\<close>, \<open>generateConfirmationKey\<close>, \<open>generateConfirmationQueryParams\<close> and
  \<open>getSessionCookieHeader\<close>; its \<open>fetchConfirmations\<close> and \<open>actOnConfirmations\<close> are
  the same statement for statement, and both test \<open>account.identity_secret\<close> before
  they sign, so that the copies agree wherever these two functions call them.\<close>

text \<open>A confirmation item of a batch, with the four fields that \<open>actOnConfirmations\<close>
  reads (\<open>JUndefined\<close> for a field that is not there).\<close>

record confirmation =
  conf_id :: jsval
  conf_confirmationId :: jsval
  conf_key :: jsval
  conf_nonce :: jsval

text \<open>An entry of the \<open>results\<close> array: \<open>{ confId, success, error?, message? }\<close>.\<close>

record item_result =
  r_confId :: jsval
  r_success :: bool
  r_error :: "jsval option"
  r_message :: "string option"

text \<open>What a call gives back: the value it returns or the error it throws, the state it
  leaves, and the requests it has sent, in order.\<close>

type_synonym 'a call = "(error + 'a) \<times> world \<times> request list"

text \<open>\<open>let data = res.data; if (typeof res.data === 'string') data = JSON.parse(res.data)\<close>;
  \<open>None\<close> when the parser throws.\<close>

definition parse_body :: "remote \<Rightarrow> jsval \<Rightarrow> jsval option" where
  "parse_body r d = (case d of JStr s \<Rightarrow> json_parse r s | _ \<Rightarrow> Some d)"

definition fetchConfirmations :: "remote \<Rightarrow> world \<Rightarrow> account \<Rightarrow> jsval call" where
  "fetchConfirmations r w0 acct =
     (let w = alignTime r w0 in
      if secret_falsy (identity_secret acct) then (Inl IdentitySecretNotFound, w, [])
      else case getSessionCookieHeader w acct of
        Inl e \<Rightarrow> (Inl e, w, [])
      | Inr cookie \<Rightarrow>
          (case generateConfirmationQueryParams w acct ''conf'' of
             Inl e \<Rightarrow> (Inl e, w, [])
           | Inr ps \<Rightarrow>
               (let req = GetList ps cookie in
                case http r 0 req of
                  Rejected msg \<Rightarrow> (Inl (NetworkFailure msg), w, [req])
                | Response status body \<Rightarrow>
                    if status = 401 \<or> status = 403 then (Inl LOGIN_REQUIRED, w, [req])
                    else if status \<noteq> 200
                    then (Inl (HttpFetchError status
                                 (js_or (opt_prop body ''message'')
                                    (JStr ''Failed to fetch confirmations''))), w, [req])
                    else
                      (let w' = updateSessionLastUsed w (acc_id acct) in
                       case parse_body r body of
                         None \<Rightarrow> (Inr (JArr []), w', [req])
                       | Some d \<Rightarrow>
                           if nullish d then (Inl TypeError, w', [req])
                           else (Inr (js_or (get_prop d ''conf'') (JArr [])), w', [req])))))"

text \<open>The classification of a response with status 200, after the two status tests.\<close>

definition classify :: "remote \<Rightarrow> jsval \<Rightarrow> int \<Rightarrow> jsval \<Rightarrow> item_result" where
  "classify r confId status body =
     (case parse_body r body of
        None \<Rightarrow>
          \<lparr>r_confId = confId, r_success = True, r_error = None, r_message = Some ''Processed''\<rparr>
      | Some d \<Rightarrow>
          if truthy d \<and> get_prop d ''success'' = JBool True
          then \<lparr>r_confId = confId, r_success = True, r_error = None, r_message = None\<rparr>
          else if truthy d \<and> (get_prop d ''success'' = JBool False \<or> truthy (get_prop d ''error''))
          then \<lparr>r_confId = confId, r_success = False,
                r_error = Some (js_or (get_prop d ''message'')
                                  (js_or (get_prop d ''error'') (JStr ''Unknown error''))),
                r_message = None\<rparr>
          else if status = 200
          then \<lparr>r_confId = confId, r_success = True, r_error = None, r_message = None\<rparr>
          else \<lparr>r_confId = confId, r_success = False,
                r_error = Some (JStr ''Unclear response''), r_message = None\<rparr>)"

text \<open>The loop \<open>for (let i = 0; i < confirmations.length; i++)\<close> from item \<open>i\<close> on,
  with the \<open>results\<close> pushed and the requests sent so far. It ends with the results, or
  with the error thrown inside it.\<close>

fun act_loop ::
    "remote \<Rightarrow> world \<Rightarrow> account \<Rightarrow> string \<Rightarrow> string \<Rightarrow> nat \<Rightarrow> confirmation list \<Rightarrow>
     item_result list \<Rightarrow> request list \<Rightarrow> (error + item_result list) \<times> request list" where
  "act_loop r w acct op cookie i [] results sent = (Inr results, sent)"
| "act_loop r w acct op cookie i (conf # rest) results sent =
     (let confId = js_or (conf_id conf) (conf_confirmationId conf);
          confKey = js_or (conf_key conf) (conf_nonce conf)
      in if \<not> truthy confId \<or> \<not> truthy confKey
         then (Inl (ConfirmationMissing i confId confKey), sent)
         else case generateConfirmationQueryParams w acct op of
           Inl e \<Rightarrow> (Inl e, sent)
         | Inr baseParams \<Rightarrow>
             (let body = params_set ''ck'' (js_string (number_text r) confKey)
                           (params_set ''cid'' (js_string (number_text r) confId)
                             (params_set ''op'' op baseParams));
                  req = PostOp body cookie
              in case http r (length sent) req of
                   Rejected msg \<Rightarrow> (Inl (NetworkFailure msg), sent @ [req])
                 | Response status data \<Rightarrow>
                     if status = 401 \<or> status = 403 then (Inl LOGIN_REQUIRED, sent @ [req])
                     else if status \<noteq> 200 then (Inl (HttpActError status confId), sent @ [req])
                     else act_loop r w acct op cookie (i + 1) rest
                            (results @ [classify r confId status data]) (sent @ [req])))"

definition actOnConfirmations ::
    "remote \<Rightarrow> world \<Rightarrow> account \<Rightarrow> string \<Rightarrow> confirmation list \<Rightarrow> item_result list call" where
  "actOnConfirmations r w0 acct op confirmations =
     (let w = alignTime r w0 in
      if secret_falsy (identity_secret acct) then (Inl IdentitySecretNotFound, w, [])
      else if op = [] \<or> op \<notin> set [''allow'', ''cancel''] then (Inl InvalidOperation, w, [])
      else if length confirmations = 0 then (Inl NoConfirmationsProvided, w, [])
      else case getSessionCookieHeader w acct of
        Inl e \<Rightarrow> (Inl e, w, [])
      | Inr cookie \<Rightarrow>
          (case act_loop r w acct op cookie 0 confirmations [] [] of
             (Inl e, sent) \<Rightarrow> (Inl e, w, sent)
           | (Inr results, sent) \<Rightarrow>
               (let w' = updateSessionLastUsed w (acc_id acct);
                    successful = length (filter (\<lambda>x. r_success x) results);
                    failed = length (filter (\<lambda>x. \<not> r_success x) results)
                in if failed > 0
                   then (Inl (FailedToProcess
                                (map r_confId (filter (\<lambda>x. \<not> r_success x) results))), w', sent)
                   else (Inr results, w', sent))))"


section \<open>The specification's wording, for comparison\<close>

text \<open>The byte layouts and the digit extraction as the specification words them, on
  integers with division and remainder instead of shifts and masks.\<close>

text \<open>A value as four bytes, most significant first.\<close>

definition spec_be32 :: "int \<Rightarrow> byte list" where
  "spec_be32 v = map (\<lambda>i. word_of_int ((v div 256 ^ (3 - i)) mod 256)) [0..<4]"

text \<open>The 8-byte time buffer of the code generator: four zero bytes, then the time step.\<close>

definition spec_time_buffer :: "int \<Rightarrow> byte list" where
  "spec_time_buffer timeStep = spec_be32 0 @ spec_be32 timeStep"

text \<open>\<open>offset = digest[19] & 0x0F\<close>, and the 31-bit big-endian integer at that offset
  (top bit of the first byte masked).\<close>

definition spec_offset :: "byte list \<Rightarrow> nat" where
  "spec_offset digest = unat (digest ! 19) mod 16"

definition spec_value :: "byte list \<Rightarrow> nat \<Rightarrow> int" where
  "spec_value digest off =
     (uint (digest ! off) mod 128) * 2 ^ 24 + uint (digest ! (off + 1)) * 2 ^ 16 +
     uint (digest ! (off + 2)) * 2 ^ 8 + uint (digest ! (off + 3))"

text \<open>Five characters: the \<open>i\<close>-th is the alphabet character at
  \<open>(value div 26^i) mod 26\<close>, in extraction order.\<close>

definition spec_code :: "int \<Rightarrow> string" where
  "spec_code v = map (\<lambda>i. STEAM_CHARS ! nat ((v div 26 ^ i) mod 26)) [0..<5]"

definition spec_generateCode :: "byte list \<Rightarrow> int \<Rightarrow> string" where
  "spec_generateCode key timeStep =
     (let digest = hmac_sha1 key (spec_time_buffer timeStep)
      in spec_code (spec_value digest (spec_offset digest)))"

text \<open>The buffer that is signed: \<open>uint32(0)\<close>, \<open>uint32(time)\<close>, then the tag bytes.\<close>

definition spec_sign_buffer :: "int \<Rightarrow> string \<Rightarrow> byte list" where
  "spec_sign_buffer time tag = spec_be32 0 @ spec_be32 time @ bytes_of_string tag"

text \<open>The canonical parameter set of a signed call.\<close>

definition spec_signed_params :: "account \<Rightarrow> string \<Rightarrow> int \<Rightarrow> string \<Rightarrow> params" where
  "spec_signed_params acct signature time tag =
     [(''p'', device_id acct), (''a'', steamid acct), (''k'', signature),
      (''t'', string_of_int time), (''m'', ''android''), (''tag'', tag)]"

text \<open>The bytes of a text of hexadecimal digits: byte \<open>i\<close> is made of the digits
  \<open>2i\<close> and \<open>2i + 1\<close>.\<close>

definition spec_hex_bytes :: "string \<Rightarrow> byte list" where
  "spec_hex_bytes s =
     map (\<lambda>i. of_nat (16 * the (hex_value (s ! (2 * i))) + the (hex_value (s ! (2 * i + 1)))))
       [0..<length s div 2]"

text \<open>The instant that a stored time denotes, if it denotes one.\<close>

definition time_ms :: "jstime option \<Rightarrow> int option" where
  "time_ms t = (case t of Some (Time m) \<Rightarrow> Some m | _ \<Rightarrow> None)"

text \<open>The expiry policy: age expiry if \<open>now - createdAt > 30 days\<close>; idle expiry if
  \<open>lastUsedAt\<close> is present and \<open>now - lastUsedAt > 7 days\<close>. A time that is not
  there, or that denotes no instant, is over no limit.\<close>

definition spec_expired :: "int \<Rightarrow> int option \<Rightarrow> int option \<Rightarrow> bool" where
  "spec_expired n created used =
     ((case created of None \<Rightarrow> False | Some c \<Rightarrow> n - c > 30 * 24 * 60 * 60 * 1000) \<or>
      (case used of None \<Rightarrow> False | Some u \<Rightarrow> n - u > 7 * 24 * 60 * 60 * 1000))"

section \<open>Notions for stating what a batch does\<close>

text \<open>The id and the key that the loop reads from an item (\<open>conf.id || conf.confirmationId\<close>,
  \<open>conf.key || conf.nonce\<close>), the test it makes on them, and the request it sends for the
  item when the signed base parameters are \<open>bp\<close>.\<close>

definition confId_of :: "confirmation \<Rightarrow> jsval" where
  "confId_of conf = js_or (conf_id conf) (conf_confirmationId conf)"

definition confKey_of :: "confirmation \<Rightarrow> jsval" where
  "confKey_of conf = js_or (conf_key conf) (conf_nonce conf)"

definition well_formed :: "confirmation \<Rightarrow> bool" where
  "well_formed conf = (truthy (confId_of conf) \<and> truthy (confKey_of conf))"

definition act_request ::
    "remote \<Rightarrow> params \<Rightarrow> string \<Rightarrow> string \<Rightarrow> confirmation \<Rightarrow> request" where
  "act_request r bp op cookie conf =
     PostOp (params_set ''ck'' (js_string (number_text r) (confKey_of conf))
              (params_set ''cid'' (js_string (number_text r) (confId_of conf))
                (params_set ''op'' op bp))) cookie"

definition answered_200 :: "http_result \<Rightarrow> bool" where
  "answered_200 h = (case h of Response status body \<Rightarrow> status = 200 | Rejected msg \<Rightarrow> False)"

definition body_of :: "http_result \<Rightarrow> jsval" where
  "body_of h = (case h of Response status body \<Rightarrow> body | Rejected msg \<Rightarrow> JUndefined)"

text \<open>A run of items, the first sent as request number \<open>n\<close>: every item is well formed
  and the remote service answers each request with status 200; and the entries that the
  classification gives for these answers.\<close>

fun all_answered_200 ::
    "remote \<Rightarrow> params \<Rightarrow> string \<Rightarrow> string \<Rightarrow> nat \<Rightarrow> confirmation list \<Rightarrow> bool" where
  "all_answered_200 r bp op cookie n [] = True"
| "all_answered_200 r bp op cookie n (c # cs) =
     (well_formed c \<and> answered_200 (http r n (act_request r bp op cookie c)) \<and>
      all_answered_200 r bp op cookie (Suc n) cs)"

fun entries_for ::
    "remote \<Rightarrow> params \<Rightarrow> string \<Rightarrow> string \<Rightarrow> nat \<Rightarrow> confirmation list \<Rightarrow> item_result list" where
  "entries_for r bp op cookie n [] = []"
| "entries_for r bp op cookie n (c # cs) =
     classify r (confId_of c) 200 (body_of (http r n (act_request r bp op cookie c))) #
     entries_for r bp op cookie (Suc n) cs"

text \<open>The session id and the token that \<open>getSessionCookieHeader\<close> finds: those of the
  stored record, or else those of the account's imported \<open>Session\<close> block.\<close>

definition session_tokens :: "world \<Rightarrow> account \<Rightarrow> string option \<times> string option" where
  "session_tokens w acct =
     (let saved = sessions w (acc_id acct)
      in (str_or (case saved of None \<Rightarrow> None | Some s \<Rightarrow> sessionid s) (mafile_SessionID acct),
          str_or (case saved of None \<Rightarrow> None | Some s \<Rightarrow> steamLoginSecure s)
            (str_or (mafile_SteamLoginSecure acct) (mafile_AccessToken acct))))"

section \<open>Example inputs\<close>

definition demo_account :: account where
  "demo_account =
     \<lparr>acc_id = ''76561198000000001'', steamid = ''76561198000000001'',
      account_name = ''demo'', shared_secret = SecretText ''AAAA'',
      identity_secret = SecretText ''AAAA'', device_id = ''android:demo'',
      mafile_SessionID = None, mafile_SteamLoginSecure = None, mafile_AccessToken = None\<rparr>"

definition stale_session :: session where
  "stale_session =
     \<lparr>sessionid = Some ''sid'', steamLoginSecure = Some ''token'', oAuthToken = None,
      createdAt = Some (Time 0), lastUsed = Some (Time 0), lastRefreshed = Some (Time 0)\<rparr>"

definition stale_world :: world where
  "stale_world =
     \<lparr>now = 1700000000000, timeOffset = 0, isTimeAligned = True,
      store_sessions = Some [''76561198000000001'' \<mapsto> stale_session], proto_lastUsed = None\<rparr>"

definition fresh_session :: session where
  "fresh_session =
     \<lparr>sessionid = Some ''sid'', steamLoginSecure = Some ''token'', oAuthToken = None,
      createdAt = Some (Time 1699990000000), lastUsed = None, lastRefreshed = None\<rparr>"

definition fresh_world :: world where
  "fresh_world =
     \<lparr>now = 1700000000000, timeOffset = 0, isTimeAligned = True,
      store_sessions = Some [''76561198000000001'' \<mapsto> fresh_session], proto_lastUsed = None\<rparr>"

definition undated_session :: session where
  "undated_session =
     \<lparr>sessionid = Some ''sid'', steamLoginSecure = Some ''token'', oAuthToken = None,
      createdAt = None, lastUsed = Some (Time 1700000000000), lastRefreshed = None\<rparr>"

definition undated_world :: world where
  "undated_world =
     \<lparr>now = 1700000000000, timeOffset = 0, isTimeAligned = True,
      store_sessions = Some [''76561198000000001'' \<mapsto> undated_session], proto_lastUsed = None\<rparr>"

text \<open>A record whose login token is empty, and a record created eleven days ago and
  not used since.\<close>

definition tokenless_session :: session where
  "tokenless_session =
     \<lparr>sessionid = Some ''sid'', steamLoginSecure = Some [], oAuthToken = None,
      createdAt = Some (Time 1699990000000), lastUsed = Some (Time 1699990000000),
      lastRefreshed = None\<rparr>"

definition tokenless_world :: world where
  "tokenless_world =
     \<lparr>now = 1700000000000, timeOffset = 0, isTimeAligned = True,
      store_sessions = Some [''76561198000000001'' \<mapsto> tokenless_session],
      proto_lastUsed = None\<rparr>"

definition idle_session :: session where
  "idle_session =
     \<lparr>sessionid = Some ''sid'', steamLoginSecure = Some ''token'', oAuthToken = None,
      createdAt = Some (Time 1699000000000), lastUsed = Some (Time 1699000000000),
      lastRefreshed = None\<rparr>"

definition idle_world :: world where
  "idle_world =
     \<lparr>now = 1700000000000, timeOffset = 0, isTimeAligned = True,
      store_sessions = Some [''76561198000000001'' \<mapsto> idle_session], proto_lastUsed = None\<rparr>"

definition bare_world :: world where
  "bare_world =
     \<lparr>now = 1700000000000, timeOffset = 0, isTimeAligned = True,
      store_sessions = Some Map.empty, proto_lastUsed = None\<rparr>"

text \<open>Example items and remote services.\<close>

definition conf_a :: confirmation where
  "conf_a = \<lparr>conf_id = JStr ''1001'', conf_confirmationId = JUndefined,
             conf_key = JStr ''k1'', conf_nonce = JUndefined\<rparr>"

definition conf_b :: confirmation where
  "conf_b = \<lparr>conf_id = JStr ''1002'', conf_confirmationId = JUndefined,
             conf_key = JStr ''k2'', conf_nonce = JUndefined\<rparr>"

definition conf_c :: confirmation where
  "conf_c = \<lparr>conf_id = JStr ''1003'', conf_confirmationId = JUndefined,
             conf_key = JStr ''k3'', conf_nonce = JUndefined\<rparr>"

definition conf_nokey :: confirmation where
  "conf_nokey = \<lparr>conf_id = JStr ''1004'', conf_confirmationId = JUndefined,
                 conf_key = JUndefined, conf_nonce = JUndefined\<rparr>"

definition success_body :: jsval where
  "success_body = JObj [(''success'', JBool True)]"

definition remote_ok :: remote where
  "remote_ok =
     \<lparr>server_time = None, http = (\<lambda>n req. Response 200 success_body),
      json_parse = (\<lambda>s. None), number_text = (\<lambda>n. [])\<rparr>"




definition demo_params :: "string \<Rightarrow> params" where
  "demo_params tag =
     spec_signed_params demo_account
       (base64_encode (hmac_sha1 [0, 0, 0] (spec_sign_buffer 1700000000 tag))) 1700000000 tag"

definition demo_cookie :: string where
  "demo_cookie = ''sessionid=sid; steamLoginSecure=token''"

section \<open>Facts about the runtime primitives\<close>

lemma length_bytes_of_word32 [simp]: "length (bytes_of_word32 w) = 4"
  by (simp add: bytes_of_word32_def)

lemma length_sha1 [simp]: "length (sha1 m) = 20"
  by (simp add: sha1_def split: prod.split)

lemma length_hmac_sha1 [simp]: "length (hmac_sha1 key msg) = 20"
  by (simp add: hmac_sha1_def Let_def)

lemma or_push_bit_add:
  fixes a b :: int
  assumes "0 \<le> b" "b < 2 ^ n"
  shows "push_bit n a OR b = a * 2 ^ n + b"
proof -
  have "push_bit n a OR b = concat_bit n b a"
    using assms by (simp add: concat_bit_def take_bit_int_eq_self or.commute)
  also have "\<dots> = take_bit n b + push_bit n a"
    by (rule concat_bit_eq)
  finally show ?thesis
    using assms by (simp add: take_bit_int_eq_self push_bit_eq_mult)
qed

lemma uint_byte_bounds: "0 \<le> uint (b :: byte) \<and> uint b < 256"
  using uint_lt2p [of b] by simp

lemma uint_ucast_byte: "uint (ucast (b :: byte) :: word32) = uint b"
  using uint_byte_bounds [of b] by (simp add: unsigned_ucast_eq take_bit_int_eq_self)

lemma int_and_127: "(k :: int) AND 127 = k mod 128"
proof -
  have "k AND 127 = k AND mask 7"
    by (simp add: mask_eq_exp_minus_1)
  also have "\<dots> = take_bit 7 k"
    by (simp only: take_bit_eq_mask)
  finally show ?thesis
    by (simp add: take_bit_eq_mod)
qed

lemma int_and_255: "(k :: int) AND 255 = k mod 256"
proof -
  have "k AND 255 = k AND mask 8"
    by (simp add: mask_eq_exp_minus_1)
  also have "\<dots> = take_bit 8 k"
    by (simp only: take_bit_eq_mask)
  finally show ?thesis
    by (simp add: take_bit_eq_mod)
qed

lemma uint_and_7f: "uint (ucast (b :: byte) AND (0x7f :: word32)) = uint b mod 128"
  by (simp add: unsigned_and_eq uint_ucast_byte int_and_127)

lemma uint_and_ff: "uint (ucast (b :: byte) AND (0xff :: word32)) = uint b"
  using uint_byte_bounds [of b]
  by (simp add: unsigned_and_eq uint_ucast_byte int_and_255)

lemma sint_eq_uint_small: "uint (w :: word32) < 2 ^ 31 \<Longrightarrow> sint w = uint w"
proof -
  assume "uint w < 2 ^ 31"
  moreover have "- (2 ^ 31) \<le> uint w"
    by (rule order_trans [of _ 0]) simp_all
  ultimately have "signed_take_bit 31 (uint w) = uint w"
    by (intro signed_take_bit_int_eq_self) simp_all
  then show ?thesis
    by (simp add: sint_uint)
qed

lemma uint_fullword:
  fixes b0 b1 b2 b3 :: byte
  shows "uint (push_bit 24 (ucast b0 AND (0x7f :: word32)) OR
           push_bit 16 (ucast b1 AND (0xff :: word32)) OR
           push_bit 8 (ucast b2 AND (0xff :: word32)) OR
           (ucast b3 AND (0xff :: word32))) =
         (uint b0 mod 128) * 2 ^ 24 + uint b1 * 2 ^ 16 + uint b2 * 2 ^ 8 + uint b3"
proof -
  define y0 y1 y2 y3 where "y0 = uint b0 mod 128" and "y1 = uint b1" and "y2 = uint b2" and "y3 = uint b3"
  have r0: "0 \<le> y0" "y0 < 128" and r1: "0 \<le> y1" "y1 < 256"
    and r2: "0 \<le> y2" "y2 < 256" and r3: "0 \<le> y3" "y3 < 256"
    using uint_byte_bounds by (simp_all add: y0_def y1_def y2_def y3_def)
  have s1: "push_bit 8 y2 OR y3 = y2 * 2 ^ 8 + y3"
    using r3 by (intro or_push_bit_add) simp_all
  have s2: "push_bit 16 y1 OR (y2 * 2 ^ 8 + y3) = y1 * 2 ^ 16 + (y2 * 2 ^ 8 + y3)"
    using r2 r3 by (intro or_push_bit_add) simp_all
  have s3: "push_bit 24 y0 OR (y1 * 2 ^ 16 + (y2 * 2 ^ 8 + y3)) = y0 * 2 ^ 24 + (y1 * 2 ^ 16 + (y2 * 2 ^ 8 + y3))"
    using r1 r2 r3 by (intro or_push_bit_add) simp_all
  have t0: "take_bit 32 (push_bit 24 y0) = push_bit 24 y0"
    using r0 by (intro take_bit_int_eq_self) (simp_all add: push_bit_eq_mult)
  have t1: "take_bit 32 (push_bit 16 y1) = push_bit 16 y1"
    using r1 by (intro take_bit_int_eq_self) (simp_all add: push_bit_eq_mult)
  have t2: "take_bit 32 (push_bit 8 y2) = push_bit 8 y2"
    using r2 by (intro take_bit_int_eq_self) (simp_all add: push_bit_eq_mult)
  have "uint (push_bit 24 (ucast b0 AND (0x7f :: word32)) OR
           push_bit 16 (ucast b1 AND (0xff :: word32)) OR
           push_bit 8 (ucast b2 AND (0xff :: word32)) OR
           (ucast b3 AND (0xff :: word32))) =
        push_bit 24 y0 OR push_bit 16 y1 OR push_bit 8 y2 OR y3"
  proof -
    have l: "LENGTH(32) = 32"
      by simp
    show ?thesis
      unfolding unsigned_or_eq unsigned_push_bit_eq uint_and_7f uint_and_ff l
      unfolding y0_def [symmetric] y1_def [symmetric] y2_def [symmetric] y3_def [symmetric]
      unfolding t0 t1 t2 ..
  qed
  also have "\<dots> = y0 * 2 ^ 24 + y1 * 2 ^ 16 + y2 * 2 ^ 8 + y3"
    unfolding s1 s2 s3 by simp
  finally show ?thesis
    by (simp add: y0_def y1_def y2_def y3_def)
qed

lemma fullCode_of_eq:
  "fullCode_of h off =
     (uint (byte_at h off) mod 128) * 2 ^ 24 + uint (byte_at h (off + 1)) * 2 ^ 16 +
     uint (byte_at h (off + 2)) * 2 ^ 8 + uint (byte_at h (off + 3))"
proof -
  let ?w = "push_bit 24 (ucast (byte_at h off) AND (0x7f :: word32)) OR
           push_bit 16 (ucast (byte_at h (off + 1)) AND (0xff :: word32)) OR
           push_bit 8 (ucast (byte_at h (off + 2)) AND (0xff :: word32)) OR
           (ucast (byte_at h (off + 3)) AND (0xff :: word32))"
  have u: "uint ?w = (uint (byte_at h off) mod 128) * 2 ^ 24 + uint (byte_at h (off + 1)) * 2 ^ 16 +
     uint (byte_at h (off + 2)) * 2 ^ 8 + uint (byte_at h (off + 3))"
    by (rule uint_fullword)
  have "uint ?w < 2 ^ 31"
    unfolding u
    using uint_byte_bounds [of "byte_at h (off + 1)"] uint_byte_bounds [of "byte_at h (off + 2)"]
      uint_byte_bounds [of "byte_at h (off + 3)"]
      pos_mod_bound [of 128 "uint (byte_at h off)"]
    by simp
  then have "sint ?w = uint ?w"
    by (rule sint_eq_uint_small)
  then show ?thesis
    unfolding fullCode_of_def u .
qed



lemma ucast_drop_bit_byte:
  "(ucast (drop_bit n (w :: word32)) :: byte) = word_of_int ((uint w div 2 ^ n) mod 256)"
proof -
  have "take_bit 32 (uint w) = uint w"
    using uint_lt2p [of w] by (simp add: take_bit_int_eq_self)
  then have "uint (ucast (drop_bit n w) :: byte) = take_bit 8 (drop_bit n (uint w))"
    by (simp add: unsigned_ucast_eq unsigned_drop_bit_eq)
  also have "\<dots> = (uint w div 2 ^ n) mod 256"
    by (simp add: take_bit_eq_mod drop_bit_eq_div)
  finally have "uint (ucast (drop_bit n w) :: byte) = (uint w div 2 ^ n) mod 256" .
  then have "word_of_int (uint (ucast (drop_bit n w) :: byte)) = (word_of_int ((uint w div 2 ^ n) mod 256) :: byte)"
    by simp
  then show ?thesis
    by simp
qed

lemma bytes_of_word32_spec:
  assumes "0 \<le> v" "v \<le> 4294967295"
  shows "bytes_of_word32 (word_of_int v) = spec_be32 v"
proof -
  have u: "uint (word_of_int v :: word32) = v"
    using assms by (simp add: uint_word_of_int take_bit_int_eq_self)
  have n: "[0..<4] = [0, 1, 2, 3]"
    by (simp add: upt_rec)
  have "(ucast (word_of_int v :: word32) :: byte) = ucast (drop_bit 0 (word_of_int v :: word32))"
    by simp
  then show ?thesis
    unfolding bytes_of_word32_def spec_be32_def n
    by (simp only: ucast_drop_bit_byte u) simp
qed

lemma replicate_4: "replicate 4 x = [x, x, x, x]"
  by (simp add: eval_nat_numeral)

lemma writeUInt32BE_zero_alloc:
  "writeUInt32BE 0 0 (buffer_alloc (8 + n)) = Inr (buffer_alloc (8 + n))"
proof -
  have "replicate (8 + n) (0 :: byte) = replicate 4 0 @ replicate (4 + n) 0"
    by (simp add: replicate_add [symmetric])
  then show ?thesis
    by (simp add: writeUInt32BE_def buffer_alloc_def bytes_of_word32_def replicate_4)
qed

lemma writeUInt32BE_time_alloc:
  assumes "0 \<le> v" "v \<le> 4294967295"
  shows "writeUInt32BE v 4 (buffer_alloc (8 + n)) = Inr (spec_be32 0 @ spec_be32 v @ replicate n 0)"
proof -
  have z: "spec_be32 0 = replicate 4 0"
    by (simp add: spec_be32_def upt_rec replicate_4)
  have l: "length (spec_be32 v) = 4"
    by (simp add: spec_be32_def)
  have "take 4 (replicate (8 + n) (0 :: byte)) = replicate 4 0"
    by simp
  moreover have "drop 8 (replicate (8 + n) (0 :: byte)) = replicate n 0"
    by simp
  ultimately show ?thesis
    using assms by (simp add: writeUInt32BE_def buffer_alloc_def bytes_of_word32_spec z)
qed

lemma writeUInt32BE_out_of_range:
  "v < 0 \<or> 4294967295 < v \<Longrightarrow> writeUInt32BE v off buf = Inl (RangeError v)"
  by (simp add: writeUInt32BE_def)


lemma length_STEAM_CHARS: "length STEAM_CHARS = 26"
  by (simp add: STEAM_CHARS_def)

lemma charAt_STEAM_CHARS:
  "0 \<le> v \<Longrightarrow> charAt STEAM_CHARS (js_rem v 26) = [STEAM_CHARS ! nat (v mod 26)]"
  by (cases "v = 0") (simp_all add: charAt_def js_rem_def length_STEAM_CHARS)

lemma code_loop_5: "code_loop 5 v code = code"
  by (simp add: code_loop.simps [of 5])

lemma code_loop_spec:
  assumes "0 \<le> v"
  shows "code_loop 0 v [] = spec_code v"
proof -
  define v1 v2 v3 v4 where "v1 = v div 26" and "v2 = v1 div 26" and "v3 = v2 div 26"
    and "v4 = v3 div 26"
  have nn: "0 \<le> v1" "0 \<le> v2" "0 \<le> v3" "0 \<le> v4"
    using assms by (simp_all add: v1_def v2_def v3_def v4_def pos_imp_zdiv_nonneg_iff)
  have p: "v1 = v div 26 ^ 1" "v2 = v div 26 ^ 2" "v3 = v div 26 ^ 3" "v4 = v div 26 ^ 4"
    by (simp_all add: v1_def v2_def v3_def v4_def zdiv_zmult2_eq power2_eq_square
        power3_eq_cube power4_eq_xxxx)
  have n: "[0..<5] = [0, 1, 2, 3, 4]"
    by (simp add: upt_rec)
  have "code_loop 0 v [] = code_loop 1 v1 [STEAM_CHARS ! nat (v mod 26)]"
    using assms by (subst code_loop.simps) (simp add: length_STEAM_CHARS charAt_STEAM_CHARS v1_def)
  also have "\<dots> = code_loop 2 v2 [STEAM_CHARS ! nat (v mod 26), STEAM_CHARS ! nat (v1 mod 26)]"
    using nn by (subst code_loop.simps) (simp add: length_STEAM_CHARS charAt_STEAM_CHARS v2_def del: One_nat_def)
  also have "\<dots> = code_loop 3 v3 [STEAM_CHARS ! nat (v mod 26), STEAM_CHARS ! nat (v1 mod 26),
      STEAM_CHARS ! nat (v2 mod 26)]"
    using nn by (subst code_loop.simps) (simp add: length_STEAM_CHARS charAt_STEAM_CHARS v3_def)
  also have "\<dots> = code_loop 4 v4 [STEAM_CHARS ! nat (v mod 26), STEAM_CHARS ! nat (v1 mod 26),
      STEAM_CHARS ! nat (v2 mod 26), STEAM_CHARS ! nat (v3 mod 26)]"
    using nn by (subst code_loop.simps) (simp add: length_STEAM_CHARS charAt_STEAM_CHARS v4_def)
  also have "\<dots> = code_loop 5 (v4 div 26) [STEAM_CHARS ! nat (v mod 26), STEAM_CHARS ! nat (v1 mod 26),
      STEAM_CHARS ! nat (v2 mod 26), STEAM_CHARS ! nat (v3 mod 26), STEAM_CHARS ! nat (v4 mod 26)]"
    using nn by (subst code_loop.simps) (simp add: length_STEAM_CHARS charAt_STEAM_CHARS)
  finally have "code_loop 0 v [] = [STEAM_CHARS ! nat (v mod 26), STEAM_CHARS ! nat (v1 mod 26),
      STEAM_CHARS ! nat (v2 mod 26), STEAM_CHARS ! nat (v3 mod 26), STEAM_CHARS ! nat (v4 mod 26)]"
    by (simp add: code_loop_5)
  then show ?thesis
    unfolding spec_code_def n p by simp
qed


lemma length_spec_be32 [simp]: "length (spec_be32 v) = 4"
  by (simp add: spec_be32_def)

lemma spec_be32_0: "spec_be32 0 = [0, 0, 0, 0]"
  by (simp add: spec_be32_def upt_rec)

text \<open>The four bytes of \<open>spec_be32\<close> are the base-256 digits of the value, most
  significant first.\<close>

lemma spec_be32_value:
  assumes "0 \<le> v" and "v \<le> 4294967295" and e: "spec_be32 v = [a, b, c, d]"
  shows "uint a * 2 ^ 24 + uint b * 2 ^ 16 + uint c * 2 ^ 8 + uint d = v"
proof -
  define q1 q2 q3 where "q1 = v div 256" and "q2 = q1 div 256" and "q3 = q2 div 256"
  have u: "\<And>x :: int. uint (word_of_int (x mod 256) :: byte) = x mod 256"
    by (simp add: uint_word_of_int take_bit_eq_mod)
  have n: "[0..<4] = [0, 1, 2, 3]"
    by (simp add: upt_rec)
  have p: "v div 65536 = q2" "v div 16777216 = q3"
    by (simp_all add: q1_def q2_def q3_def zdiv_zmult2_eq [symmetric])
  from e have "a = word_of_int (q3 mod 256)" "b = word_of_int (q2 mod 256)"
    "c = word_of_int (q1 mod 256)" "d = word_of_int (v mod 256)"
    unfolding spec_be32_def n by (auto simp: p q1_def [symmetric])
  then have w: "uint a = q3 mod 256" "uint b = q2 mod 256" "uint c = q1 mod 256" "uint d = v mod 256"
    by (simp_all add: u)
  have "q3 < 256" "0 \<le> q3"
    using assms(1,2) by (simp_all add: q1_def q2_def q3_def zdiv_zmult2_eq [symmetric]
        div_less_iff_less_mult pos_imp_zdiv_nonneg_iff)
  then have s3: "q3 mod 256 = q3"
    by simp
  have s2: "q2 = q3 * 256 + q2 mod 256"
    by (simp add: q3_def)
  have s1: "q1 = q2 * 256 + q1 mod 256"
    by (simp add: q2_def)
  have s0: "v = q1 * 256 + v mod 256"
    by (simp add: q1_def)
  have "uint a * 2 ^ 24 + uint b * 2 ^ 16 + uint c * 2 ^ 8 + uint d =
          ((q3 * 256 + q2 mod 256) * 256 + q1 mod 256) * 256 + v mod 256"
    unfolding w s3 by (simp add: algebra_simps)
  also have "\<dots> = v"
    using s0 s1 s2 by simp
  finally show ?thesis .
qed

lemma unat_and_0f: "unat ((b :: byte) AND 0x0f) = unat b mod 16"
proof -
  have "uint (b AND 0x0f) = uint b AND 15"
    by (simp add: unsigned_and_eq)
  also have "\<dots> = uint b AND mask 4"
    by (simp add: mask_eq_exp_minus_1)
  also have "\<dots> = take_bit 4 (uint b)"
    by (simp only: take_bit_eq_mask)
  finally have "uint (b AND 0x0f) = uint b mod 16"
    by (simp add: take_bit_eq_mod)
  then have "nat (uint (b AND 0x0f)) = nat (uint b mod 16)"
    by simp
  then show ?thesis
    by (simp add: nat_mod_distrib)
qed

lemma fullCode_of_spec:
  assumes "off + 3 < length h"
  shows "fullCode_of h off = spec_value h off"
  using assms by (simp add: fullCode_of_eq spec_value_def byte_at_def)

lemma spec_value_nonneg: "0 \<le> spec_value h off"
  by (simp add: spec_value_def)

section \<open>The login code\<close>

lemma generateSteamGuardCode_in_range:
  assumes "bufferizeSecret s = Some key"
    and "0 \<le> ms div 1000 div 30" and "ms div 1000 div 30 \<le> 4294967295"
  shows "generateSteamGuardCode s ms = Inr (spec_generateCode key (ms div 1000 div 30))"
proof -
  let ?ts = "ms div 1000 div 30"
  let ?h = "hmac_sha1 key (spec_time_buffer ?ts)"
  have b1: "writeUInt32BE 0 0 (buffer_alloc 8) = Inr (buffer_alloc 8)"
    using writeUInt32BE_zero_alloc [of 0] by simp
  have b2: "writeUInt32BE ?ts 4 (buffer_alloc 8) = Inr (spec_time_buffer ?ts)"
    using writeUInt32BE_time_alloc [OF assms(2,3), of 0] by (simp add: spec_time_buffer_def)
  have o: "unat (byte_at ?h 19 AND 0x0f) = spec_offset ?h"
    by (simp add: byte_at_def unat_and_0f spec_offset_def)
  have "spec_offset ?h < 16"
    by (simp add: spec_offset_def)
  then have f: "fullCode_of ?h (spec_offset ?h) = spec_value ?h (spec_offset ?h)"
    by (intro fullCode_of_spec) simp
  show ?thesis
    unfolding generateSteamGuardCode_def assms(1) Let_def
    by (simp add: b1 b2 o f code_loop_spec spec_value_nonneg spec_generateCode_def Let_def)
qed

lemma generateSteamGuardCode_out_of_range:
  assumes "bufferizeSecret s = Some key"
    and "ms div 1000 div 30 < 0 \<or> 4294967295 < ms div 1000 div 30"
  shows "generateSteamGuardCode s ms = Inl (RangeError (ms div 1000 div 30))"
proof -
  have b1: "writeUInt32BE 0 0 (buffer_alloc 8) = Inr (buffer_alloc 8)"
    using writeUInt32BE_zero_alloc [of 0] by simp
  show ?thesis
    unfolding generateSteamGuardCode_def assms(1) Let_def
    using assms(2) by (simp add: b1 writeUInt32BE_out_of_range)
qed

lemma length_spec_code: "length (spec_code v) = 5"
  by (simp add: spec_code_def)

lemma set_spec_code: "set (spec_code v) \<subseteq> set STEAM_CHARS"
proof -
  have "\<And>i. nat ((v div 26 ^ i) mod 26) < length STEAM_CHARS"
    by (simp add: length_STEAM_CHARS nat_less_iff)
  then show ?thesis
    unfolding spec_code_def by auto
qed

lemma distinct_STEAM_CHARS: "distinct STEAM_CHARS"
  by (simp add: STEAM_CHARS_def)


lemma bufferizeSecret_AAAA: "bufferizeSecret (SecretText ''AAAA'') = Some [0, 0, 0]"
  by (simp add: bufferizeSecret_def secret_falsy_def is_hex40_def base64_decode_def
      b64_value_def)

text \<open>
  Claim C6, amended. For every secret that \<open>bufferizeSecret\<close> decodes to a key and every
  timestamp (in milliseconds) whose 30-second time step \<open>floor(floor(ms / 1000) / 30)\<close>
  lies in \<open>0 .. 2^32 - 1\<close>, \<open>generateSteamGuardCode\<close> returns the code that the
  specification describes: HMAC-SHA1 of the 8-byte big-endian time-step buffer under the
  key, offset \<open>digest[19] & 0x0F\<close>, the 31-bit big-endian integer at that offset, and
  five characters, the \<open>i\<close>-th being the alphabet character at \<open>(value div 26^i) mod 26\<close>
  (extraction order). The code has exactly 5 characters, each from the 26-character
  alphabet. For a time step outside \<open>0 .. 2^32 - 1\<close> the call throws the range error of
  \<open>writeUInt32BE\<close> and returns no code.
\<close>

theorem generateSteamGuardCode_code:
  assumes "bufferizeSecret s = Some key"
  shows "generateSteamGuardCode s ms =
           (if 0 \<le> ms div 1000 div 30 \<and> ms div 1000 div 30 \<le> 4294967295
            then Inr (spec_generateCode key (ms div 1000 div 30))
            else Inl (RangeError (ms div 1000 div 30))) \<and>
         length (spec_generateCode key (ms div 1000 div 30)) = 5 \<and>
         set (spec_generateCode key (ms div 1000 div 30)) \<subseteq> set STEAM_CHARS \<and>
         length STEAM_CHARS = 26 \<and> distinct STEAM_CHARS"
proof -
  have "generateSteamGuardCode s ms =
           (if 0 \<le> ms div 1000 div 30 \<and> ms div 1000 div 30 \<le> 4294967295
            then Inr (spec_generateCode key (ms div 1000 div 30))
            else Inl (RangeError (ms div 1000 div 30)))"
  proof (cases "0 \<le> ms div 1000 div 30 \<and> ms div 1000 div 30 \<le> 4294967295")
    case True
    then show ?thesis
      using generateSteamGuardCode_in_range [OF assms, of ms] by simp
  next
    case False
    then have "ms div 1000 div 30 < 0 \<or> 4294967295 < ms div 1000 div 30"
      by linarith
    then show ?thesis
      using generateSteamGuardCode_out_of_range [OF assms, of ms] False by simp
  qed
  then show ?thesis
    by (simp add: spec_generateCode_def Let_def length_spec_code set_spec_code
        length_STEAM_CHARS distinct_STEAM_CHARS)
qed

text \<open>The amended claim at the secret \<open>AAAA\<close> and the time 1700000000000 ms.\<close>

theorem generateSteamGuardCode_code_witness:
  "generateSteamGuardCode (SecretText ''AAAA'') 1700000000000 =
     Inr (spec_generateCode [0, 0, 0] 56666666) \<and>
   length (spec_generateCode [0, 0, 0] 56666666) = 5 \<and>
   set (spec_generateCode [0, 0, 0] 56666666) \<subseteq> set STEAM_CHARS"
  using generateSteamGuardCode_code [OF bufferizeSecret_AAAA, of 1700000000000] by simp

text \<open>Claim C6 as stated fails: at the decodable secret \<open>AAAA\<close> no code is returned
  for the timestamp \<open>-1\<close> (time step \<open>-1\<close>), nor for the timestamp 128849018880000
  (time step \<open>2^32\<close>).\<close>

theorem generateSteamGuardCode_range_error:
  "bufferizeSecret (SecretText ''AAAA'') = Some [0, 0, 0] \<and>
   generateSteamGuardCode (SecretText ''AAAA'') (- 1) = Inl (RangeError (- 1)) \<and>
   generateSteamGuardCode (SecretText ''AAAA'') 128849018880000 = Inl (RangeError 4294967296)"
  using generateSteamGuardCode_out_of_range [OF bufferizeSecret_AAAA, of "- 1"]
    generateSteamGuardCode_out_of_range [OF bufferizeSecret_AAAA, of 128849018880000]
  by (simp add: bufferizeSecret_AAAA)

lemma same_window_ms:
  fixes ms1 ms2 :: int
  assumes "ms1 div 30 = ms2 div 30"
  shows "ms1 div 1000 div 30 = ms2 div 1000 div 30"
proof -
  have "\<And>m :: int. m div 1000 div 30 = m div 30 div 1000"
    by (simp add: zdiv_zmult2_eq [symmetric])
  then show ?thesis
    using assms by simp
qed

text \<open>
  Claim C7. \<open>generateSteamGuardCode\<close> depends on its timestamp only through the
  30-second time step: two timestamps in the same window (the same
  \<open>floor(floor(ms / 1000) / 30)\<close>, or the same \<open>floor(t / 30)\<close> of the argument itself)
  give identical results for every secret.
\<close>

theorem generateSteamGuardCode_same_window:
  assumes "ms1 div 1000 div 30 = ms2 div 1000 div 30 \<or> ms1 div 30 = ms2 div 30"
  shows "generateSteamGuardCode s ms1 = generateSteamGuardCode s ms2"
proof -
  from assms have h: "ms1 div 1000 div 30 = ms2 div 1000 div 30"
    using same_window_ms by blast
  show ?thesis
    unfolding generateSteamGuardCode_def Let_def h ..
qed

text \<open>Two timestamps at the two ends of one window.\<close>

theorem generateSteamGuardCode_same_window_witness:
  "generateSteamGuardCode (SecretText ''AAAA'') 1700000010000 =
   generateSteamGuardCode (SecretText ''AAAA'') 1700000039999 \<and>
   generateSteamGuardCode (SecretText ''AAAA'') 1700000010000 =
     Inr (spec_generateCode [0, 0, 0] 56666667)"
  using generateSteamGuardCode_same_window [of 1700000010000 1700000039999 "SecretText ''AAAA''"]
    generateSteamGuardCode_in_range [OF bufferizeSecret_AAAA, of 1700000010000]
  by simp



section \<open>Secrets and signatures\<close>

lemma hex_decode_spec_gen:
  "list_all (\<lambda>c. hex_value c \<noteq> None) s \<Longrightarrow> even (length s) \<Longrightarrow> hex_decode s = spec_hex_bytes s"
proof (induction s rule: hex_decode.induct)
  case (1 a b rest)
  then obtain x y where xy: "hex_value a = Some x" "hex_value b = Some y"
    by auto
  have r: "hex_decode rest = spec_hex_bytes rest"
    using 1 xy by simp
  have "spec_hex_bytes (a # b # rest) =
          of_nat (16 * x + y) # spec_hex_bytes rest"
    unfolding spec_hex_bytes_def
    by (simp add: map_upt_Suc xy del: upt_Suc)
  then show ?case
    using xy r by simp
qed (simp_all add: spec_hex_bytes_def)

lemma hex_decode_hex40: "is_hex40 s \<Longrightarrow> hex_decode s = spec_hex_bytes s"
  by (simp add: is_hex40_def hex_decode_spec_gen)

lemma length_spec_hex_bytes: "length (spec_hex_bytes s) = length s div 2"
  by (simp add: spec_hex_bytes_def)

lemma bufferizeSecret_None_iff: "bufferizeSecret x = None \<longleftrightarrow> secret_falsy x"
  by (cases x) (simp_all add: bufferizeSecret_def secret_falsy_def)

lemma buffer_copy_tag:
  assumes "length hd8 = 8"
  shows "buffer_copy tagBuf (hd8 @ replicate (length tagBuf) 0) 8 = hd8 @ tagBuf"
  using assms by (simp add: buffer_copy_def)

lemma generateConfirmationKey_in_range:
  assumes "bufferizeSecret s = Some key" and "0 \<le> t" and "t \<le> 4294967295"
  shows "generateConfirmationKey s t tag =
           Inr (base64_encode (hmac_sha1 key (spec_sign_buffer t tag)))"
proof -
  let ?n = "length (bytes_of_string tag)"
  have b1: "writeUInt32BE 0 0 (buffer_alloc (8 + ?n)) = Inr (buffer_alloc (8 + ?n))"
    by (rule writeUInt32BE_zero_alloc)
  have b2: "writeUInt32BE t 4 (buffer_alloc (8 + ?n)) =
              Inr ((spec_be32 0 @ spec_be32 t) @ replicate ?n 0)"
    using writeUInt32BE_time_alloc [OF assms(2,3), of ?n] by simp
  have c: "buffer_copy (bytes_of_string tag) (spec_be32 0 @ spec_be32 t @ replicate ?n 0) 8 =
             spec_be32 0 @ spec_be32 t @ bytes_of_string tag"
    using buffer_copy_tag [of "spec_be32 0 @ spec_be32 t" "bytes_of_string tag"] by simp
  show ?thesis
  proof (cases "?n = 0")
    case True
    have z1: "writeUInt32BE 0 0 (buffer_alloc 8) = Inr (buffer_alloc 8)"
      using writeUInt32BE_zero_alloc [of 0] by simp
    have z2: "writeUInt32BE t 4 (buffer_alloc 8) = Inr (spec_be32 0 @ spec_be32 t)"
      using writeUInt32BE_time_alloc [OF assms(2,3), of 0] by simp
    from True show ?thesis
      unfolding generateConfirmationKey_def assms(1) Let_def
      by (simp add: z1 z2 spec_sign_buffer_def)
  next
    case False
    then show ?thesis
      unfolding generateConfirmationKey_def assms(1) Let_def
      by (simp add: b1 b2 c spec_sign_buffer_def)
  qed
qed

lemma generateConfirmationKey_out_of_range:
  assumes "bufferizeSecret s = Some key" and "t < 0 \<or> 4294967295 < t"
  shows "generateConfirmationKey s t tag = Inl (RangeError t)"
  unfolding generateConfirmationKey_def assms(1) Let_def
  using assms(2) by (simp add: writeUInt32BE_zero_alloc writeUInt32BE_out_of_range)

lemma generateConfirmationKey_cases:
  assumes "bufferizeSecret s = Some key"
  shows "generateConfirmationKey s t tag =
           (if 0 \<le> t \<and> t \<le> 4294967295
            then Inr (base64_encode (hmac_sha1 key (spec_sign_buffer t tag)))
            else Inl (RangeError t))"
proof (cases "0 \<le> t \<and> t \<le> 4294967295")
  case True
  then show ?thesis
    using generateConfirmationKey_in_range [OF assms, of t tag] by simp
next
  case False
  then have "t < 0 \<or> 4294967295 < t"
    by linarith
  then show ?thesis
    using generateConfirmationKey_out_of_range [OF assms, of t tag] False by simp
qed

lemma generateConfirmationQueryParams_eq:
  "generateConfirmationQueryParams w acct tag =
     (case generateConfirmationKey (identity_secret acct) (getSteamTime w) tag of
        Inl e \<Rightarrow> Inl e
      | Inr sig \<Rightarrow> Inr (spec_signed_params acct sig (getSteamTime w) tag))"
  by (simp add: generateConfirmationQueryParams_def Let_def spec_signed_params_def
      split: sum.split)

lemma length_spec_sign_buffer: "length (spec_sign_buffer t tag) = 8 + length tag"
  by (simp add: spec_sign_buffer_def bytes_of_string_def)


lemma generateSteamGuardCode_cases:
  assumes "bufferizeSecret s = Some key"
  shows "generateSteamGuardCode s ms =
           (if 0 \<le> ms div 1000 div 30 \<and> ms div 1000 div 30 \<le> 4294967295
            then Inr (spec_generateCode key (ms div 1000 div 30))
            else Inl (RangeError (ms div 1000 div 30)))"
proof (cases "0 \<le> ms div 1000 div 30 \<and> ms div 1000 div 30 \<le> 4294967295")
  case True
  then show ?thesis
    using generateSteamGuardCode_in_range [OF assms, of ms] by simp
next
  case False
  then have "ms div 1000 div 30 < 0 \<or> 4294967295 < ms div 1000 div 30"
    by linarith
  then show ?thesis
    using generateSteamGuardCode_out_of_range [OF assms, of ms] False by simp
qed

text \<open>
  Claim C8, amended. For every identity secret that \<open>bufferizeSecret\<close> decodes to a key,
  every tag and every time in \<open>0 .. 2^32 - 1\<close>, \<open>generateConfirmationKey\<close> returns
  base64 of HMAC-SHA1 under the key over a buffer of \<open>8 + len(tag)\<close> bytes: big-endian
  \<open>uint32(0)\<close>, big-endian \<open>uint32(time)\<close>, then the tag bytes (nothing when the tag
  is empty). For a time outside \<open>0 .. 2^32 - 1\<close> it throws the range error of
  \<open>writeUInt32BE\<close>. \<open>generateConfirmationQueryParams\<close> signs at the synchronized time
  and returns exactly the six parameters \<open>p\<close> (device id), \<open>a\<close> (account identifier),
  \<open>k\<close> (signature), \<open>t\<close> (time), \<open>m = android\<close> and \<open>tag\<close>, or the same range error.
\<close>

theorem signature_and_signed_params:
  assumes "bufferizeSecret (identity_secret acct) = Some key"
  shows "generateConfirmationKey (identity_secret acct) t tag =
           (if 0 \<le> t \<and> t \<le> 4294967295
            then Inr (base64_encode (hmac_sha1 key (spec_sign_buffer t tag)))
            else Inl (RangeError t)) \<and>
         length (spec_sign_buffer t tag) = 8 + length tag \<and>
         spec_sign_buffer t [] = spec_be32 0 @ spec_be32 t \<and>
         generateConfirmationQueryParams w acct tag =
           (if 0 \<le> getSteamTime w \<and> getSteamTime w \<le> 4294967295
            then Inr (spec_signed_params acct
                        (base64_encode (hmac_sha1 key (spec_sign_buffer (getSteamTime w) tag)))
                        (getSteamTime w) tag)
            else Inl (RangeError (getSteamTime w)))"
  by (simp add: generateConfirmationKey_cases [OF assms] length_spec_sign_buffer
      generateConfirmationQueryParams_eq spec_sign_buffer_def bytes_of_string_def)

text \<open>The amended claim at the example account, the tag \<open>conf\<close> and the time
  1700000000.\<close>

theorem signature_and_signed_params_witness:
  "generateConfirmationKey (identity_secret demo_account) 1700000000 ''conf'' =
     Inr (base64_encode (hmac_sha1 [0, 0, 0] (spec_sign_buffer 1700000000 ''conf''))) \<and>
   length (spec_sign_buffer 1700000000 ''conf'') = 12 \<and>
   generateConfirmationQueryParams stale_world demo_account ''conf'' =
     Inr (spec_signed_params demo_account
            (base64_encode (hmac_sha1 [0, 0, 0] (spec_sign_buffer 1700000000 ''conf'')))
            1700000000 ''conf'')"
proof -
  have k: "bufferizeSecret (identity_secret demo_account) = Some [0, 0, 0]"
    by (simp add: demo_account_def bufferizeSecret_AAAA)
  have t: "getSteamTime stale_world = 1700000000"
    by (simp add: getSteamTime_def stale_world_def)
  show ?thesis
    using signature_and_signed_params [OF k, of 1700000000 "''conf''" stale_world]
    by (simp add: t)
qed

text \<open>Claim C8 as stated fails: at the decodable secret \<open>AAAA\<close> no signature is
  computed for the time \<open>-1\<close>, nor for the time \<open>2^32\<close>.\<close>

theorem signature_range_error:
  "bufferizeSecret (SecretText ''AAAA'') = Some [0, 0, 0] \<and>
   generateConfirmationKey (SecretText ''AAAA'') (- 1) ''conf'' = Inl (RangeError (- 1)) \<and>
   generateConfirmationKey (SecretText ''AAAA'') 4294967296 ''conf'' = Inl (RangeError 4294967296)"
  using generateConfirmationKey_out_of_range [OF bufferizeSecret_AAAA, of "- 1" "''conf''"]
    generateConfirmationKey_out_of_range [OF bufferizeSecret_AAAA, of 4294967296 "''conf''"]
  by (simp add: bufferizeSecret_AAAA)

text \<open>
  Claim C9, amended. \<open>bufferizeSecret\<close> maps a text of exactly 40 hexadecimal characters
  (either case) to its hex-decoded bytes and any other non-empty text to its base64-decoded
  bytes. It returns nothing exactly for an absent or empty secret, and exactly then the
  code generator and the signer fail with their missing-secret errors. A non-empty text
  whose base64 decoding is empty is not rejected: it gives the empty key.
\<close>

theorem bufferizeSecret_decoding:
  "bufferizeSecret (SecretText s) =
     (if s = [] then None
      else if is_hex40 s then Some (spec_hex_bytes s)
      else Some (base64_decode s)) \<and>
   length (spec_hex_bytes s) = length s div 2 \<and>
   bufferizeSecret NoSecret = None \<and>
   (bufferizeSecret x = None \<longleftrightarrow> secret_falsy x) \<and>
   (generateSteamGuardCode x ms = Inl MissingSharedSecret \<longleftrightarrow> secret_falsy x) \<and>
   (generateConfirmationKey x t tag = Inl MissingIdentitySecret \<longleftrightarrow> secret_falsy x)"
proof -
  have a: "bufferizeSecret (SecretText s) =
     (if s = [] then None
      else if is_hex40 s then Some (spec_hex_bytes s)
      else Some (base64_decode s))"
    by (simp add: bufferizeSecret_def secret_falsy_def hex_decode_hex40)
  have b: "bufferizeSecret NoSecret = None"
    by (simp add: bufferizeSecret_def secret_falsy_def)
  have c: "generateSteamGuardCode x ms = Inl MissingSharedSecret \<longleftrightarrow> secret_falsy x"
  proof (cases "bufferizeSecret x")
    case None
    then show ?thesis
      by (simp add: generateSteamGuardCode_def bufferizeSecret_None_iff [symmetric])
  next
    case (Some key)
    then have "\<not> secret_falsy x"
      by (simp add: bufferizeSecret_None_iff [symmetric])
    then show ?thesis
      by (simp add: generateSteamGuardCode_cases [OF Some])
  qed
  have d: "generateConfirmationKey x t tag = Inl MissingIdentitySecret \<longleftrightarrow> secret_falsy x"
  proof (cases "bufferizeSecret x")
    case None
    then show ?thesis
      by (simp add: generateConfirmationKey_def bufferizeSecret_None_iff [symmetric])
  next
    case (Some key)
    then have "\<not> secret_falsy x"
      by (simp add: bufferizeSecret_None_iff [symmetric])
    then show ?thesis
      by (simp add: generateConfirmationKey_cases [OF Some])
  qed
  show ?thesis
    using a b c d by (simp add: length_spec_hex_bytes bufferizeSecret_None_iff)
qed

text \<open>The amended claim at a text of 40 hexadecimal characters.\<close>

theorem bufferizeSecret_decoding_witness:
  "bufferizeSecret (SecretText ''00112233445566778899aAbBcCdDeEfF00112233'') =
     Some (spec_hex_bytes ''00112233445566778899aAbBcCdDeEfF00112233'') \<and>
   length (spec_hex_bytes ''00112233445566778899aAbBcCdDeEfF00112233'') = 20"
  using bufferizeSecret_decoding [of "''00112233445566778899aAbBcCdDeEfF00112233''"]
  by (simp add: is_hex40_def hex_value_def)

lemma bufferizeSecret_eq_sign: "bufferizeSecret (SecretText ''='') = Some []"
  by (simp add: bufferizeSecret_def secret_falsy_def is_hex40_def base64_decode_def)

text \<open>Claim C9 as stated fails: the text \<open>=\<close> decodes (as base64) to zero bytes, yet
  it is accepted as the empty key and both callers go on to compute with it.\<close>

theorem empty_key_accepted:
  "base64_decode ''='' = [] \<and> bufferizeSecret (SecretText ''='') = Some [] \<and>
   generateSteamGuardCode (SecretText ''='') 0 = Inr (spec_generateCode [] 0) \<and>
   generateConfirmationKey (SecretText ''='') 0 ''conf'' =
     Inr (base64_encode (hmac_sha1 [] (spec_sign_buffer 0 ''conf'')))"
  using generateSteamGuardCode_in_range [OF bufferizeSecret_eq_sign, of 0]
    generateConfirmationKey_in_range [OF bufferizeSecret_eq_sign, of 0 "''conf''"]
  by (simp add: bufferizeSecret_eq_sign base64_decode_def)



section \<open>Session validity\<close>

lemma lookup_session_stored:
  "sessions w a = Some s \<Longrightarrow> lookup_session w a = Stored s"
  by (auto simp: lookup_session_def sessions_def split: option.splits)



lemma time_truthy_cases:
  "time_truthy t = (t \<noteq> None \<and> t \<noteq> Some Blank)"
  by (simp add: time_truthy_def split: option.split jstime.split)

lemma exceeds_elapsed:
  "exceeds (elapsed_since n t) limit =
     (case time_ms t of None \<Rightarrow> False | Some c \<Rightarrow> n - c > limit)"
  by (simp add: exceeds_def elapsed_since_def time_ms_def split: option.split jstime.split)

lemma whole_days_elapsed:
  "time_ms t = Some c \<Longrightarrow> whole_days (elapsed_since n t) = (n - c) div (24 * 60 * 60 * 1000)"
  by (simp add: whole_days_def elapsed_since_def time_ms_def split: option.splits jstime.splits)

lemma time_ms_falsy:
  "\<not> time_truthy t \<Longrightarrow> time_ms t = None"
  by (auto simp: time_truthy_cases time_ms_def)

text \<open>\<open>isSessionExpired\<close> on a record, test by test.\<close>

lemma isSessionExpired_stored:
  "isSessionExpired w (Stored s) =
     (if createdAt s = None \<or> createdAt s = Some Blank then (True, None)
      else case time_ms (createdAt s) of
             None \<Rightarrow>
               (case time_ms (read_lastUsed w s) of
                  None \<Rightarrow> (False, None)
                | Some l \<Rightarrow>
                    if now w - l > 7 * 24 * 60 * 60 * 1000
                    then (True, Some (ExpiredByInactivity ((now w - l) div (24 * 60 * 60 * 1000))))
                    else (False, None))
           | Some c \<Rightarrow>
               if now w - c > 30 * 24 * 60 * 60 * 1000
               then (True, Some (ExpiredByAge ((now w - c) div (24 * 60 * 60 * 1000))))
               else (case time_ms (read_lastUsed w s) of
                       None \<Rightarrow> (False, None)
                     | Some l \<Rightarrow>
                         if now w - l > 7 * 24 * 60 * 60 * 1000
                         then (True, Some (ExpiredByInactivity ((now w - l) div (24 * 60 * 60 * 1000))))
                         else (False, None)))"
proof (cases "time_truthy (createdAt s)")
  case False
  then show ?thesis
    by (simp add: isSessionExpired_def time_truthy_cases)
next
  case True
  then have c: "createdAt s \<noteq> None" "createdAt s \<noteq> Some Blank"
    by (simp_all add: time_truthy_cases)
  show ?thesis
  proof (cases "time_truthy (read_lastUsed w s)")
    case False
    then have "time_ms (read_lastUsed w s) = None"
      by (rule time_ms_falsy)
    then show ?thesis
      using True False c
      by (simp add: isSessionExpired_def Let_def exceeds_elapsed whole_days_elapsed
          SESSION_EXPIRY_MS_def split: option.split)
  next
    case l: True
    show ?thesis
      using True l c
      by (simp add: isSessionExpired_def Let_def exceeds_elapsed whole_days_elapsed
          SESSION_EXPIRY_MS_def SESSION_IDLE_TIMEOUT_MS_def split: option.split)
  qed
qed

lemma isSessionExpired_undated:
  "createdAt s = None \<Longrightarrow> isSessionExpired w (Stored s) = (True, None)"
  by (simp add: isSessionExpired_stored)

lemma isSessionExpired_spec:
  "fst (isSessionExpired w (Stored s)) =
     (createdAt s = None \<or> createdAt s = Some Blank \<or>
      spec_expired (now w) (time_ms (createdAt s)) (time_ms (read_lastUsed w s)))"
  by (simp add: isSessionExpired_stored spec_expired_def split: option.split)

lemma str_truthy_cases: "str_truthy x = (x \<noteq> None \<and> x \<noteq> Some [])"
  by (simp add: str_truthy_def split: option.split)

text \<open>\<open>isSessionValid\<close> for an id with a record in the file, for an id with none that
  names no member of \<open>Object.prototype\<close>, and for an id with none that names one.\<close>

lemma isSessionValid_stored:
  assumes "sessions w a = Some s"
  shows "isSessionValid w a =
           (if sessionid s = None \<or> sessionid s = Some [] \<or>
               steamLoginSecure s = None \<or> steamLoginSecure s = Some []
            then Invalid INCOMPLETE_SESSION
            else if createdAt s = None \<or> createdAt s = Some Blank \<or>
                    spec_expired (now w) (time_ms (createdAt s)) (time_ms (read_lastUsed w s))
            then Invalid SESSION_EXPIRED
            else Valid s)"
  by (simp add: isSessionValid_def getSessionCookiesForAccount_def
      lookup_session_stored [OF assms] isSessionExpired_spec str_truthy_cases)




text \<open>The records and the ids of the example states.\<close>

lemma example_sessions:
  "sessions fresh_world ''76561198000000001'' = Some fresh_session"
  "sessions stale_world ''76561198000000001'' = Some stale_session"
  "sessions idle_world ''76561198000000001'' = Some idle_session"
  "sessions tokenless_world ''76561198000000001'' = Some tokenless_session"
  "sessions undated_world ''76561198000000001'' = Some undated_session"
  "sessions bare_world a = None"
  by (simp_all add: sessions_def fresh_world_def stale_world_def idle_world_def
      tokenless_world_def undated_world_def bare_world_def)


lemma example_now:
  "now fresh_world = 1700000000000" "now stale_world = 1700000000000"
  "now idle_world = 1700000000000" "now tokenless_world = 1700000000000"
  "now undated_world = 1700000000000" "now bare_world = 1700000000000"
  by (simp_all add: fresh_world_def stale_world_def idle_world_def
      tokenless_world_def undated_world_def bare_world_def)

text \<open>Once \<open>updateSessionLastUsed\<close> has run for the id \<open>__proto__\<close> on a store without
  such a record, a record without \<open>lastUsed\<close> of its own is idle since that moment.\<close>

lemma lastUsed_of_prototype:
  "isSessionExpired
     ((updateSessionLastUsed (fresh_world\<lparr>now := 1699990000000\<rparr>) ''__proto__'')
        \<lparr>now := 1700700000000\<rparr>) (Stored fresh_session) =
   (True, Some (ExpiredByInactivity 8))"
  by (simp add: updateSessionLastUsed_def lookup_session_def inherited_member_def fresh_world_def
      isSessionExpired_stored read_lastUsed_def fresh_session_def time_ms_def)





text \<open>
  Claim C10. A stored record with both tokens non-empty and no \<open>createdAt\<close> is
  classified as \<open>SESSION_EXPIRED\<close>, whatever the current time; it is never valid and
  never \<open>INCOMPLETE_SESSION\<close>.
\<close>

theorem undated_session_expired:
  assumes "sessions w a = Some s" and "str_truthy (sessionid s)"
    and "str_truthy (steamLoginSecure s)" and "createdAt s = None"
  shows "isSessionValid w a = Invalid SESSION_EXPIRED"
  using assms
  by (simp add: isSessionValid_def getSessionCookiesForAccount_def lookup_session_stored
      isSessionExpired_undated)

text \<open>A record without \<open>createdAt\<close>, used this very millisecond, and the same record
  read at time 0.\<close>

theorem undated_session_expired_witness:
  "isSessionValid undated_world ''76561198000000001'' = Invalid SESSION_EXPIRED \<and>
   isSessionValid (undated_world\<lparr>now := 0\<rparr>) ''76561198000000001'' = Invalid SESSION_EXPIRED"
  using undated_session_expired [of undated_world "''76561198000000001''" undated_session]
    undated_session_expired [of "undated_world\<lparr>now := 0\<rparr>" "''76561198000000001''" undated_session]
  by (simp add: undated_world_def undated_session_def str_truthy_def sessions_def)


section \<open>The batch loop\<close>

lemma act_loop_Cons:
  assumes "generateConfirmationQueryParams w acct op = Inr bp"
  shows "act_loop r w acct op cookie i (c # rest) results sent =
           (if \<not> well_formed c
            then (Inl (ConfirmationMissing i (confId_of c) (confKey_of c)), sent)
            else case http r (length sent) (act_request r bp op cookie c) of
                   Rejected msg \<Rightarrow> (Inl (NetworkFailure msg), sent @ [act_request r bp op cookie c])
                 | Response status body \<Rightarrow>
                     if status = 401 \<or> status = 403
                     then (Inl LOGIN_REQUIRED, sent @ [act_request r bp op cookie c])
                     else if status \<noteq> 200
                     then (Inl (HttpActError status (confId_of c)), sent @ [act_request r bp op cookie c])
                     else act_loop r w acct op cookie (i + 1) rest
                            (results @ [classify r (confId_of c) status body])
                            (sent @ [act_request r bp op cookie c]))"
  by (simp add: assms Let_def well_formed_def confId_of_def confKey_of_def act_request_def
      split: http_result.split)

lemma act_loop_answered_200:
  assumes "generateConfirmationQueryParams w acct op = Inr bp"
    and "all_answered_200 r bp op cookie (length sent) pre"
  shows "act_loop r w acct op cookie i (pre @ rest) results sent =
           act_loop r w acct op cookie (i + length pre) rest
             (results @ entries_for r bp op cookie (length sent) pre)
             (sent @ map (act_request r bp op cookie) pre)"
  using assms(2)
proof (induction pre arbitrary: i results sent)
  case Nil
  then show ?case by simp
next
  case (Cons c pre)
  from Cons.prems obtain body where
    wf: "well_formed c" and
    h: "http r (length sent) (act_request r bp op cookie c) = Response 200 body" and
    tl: "all_answered_200 r bp op cookie (Suc (length sent)) pre"
    by (auto simp: answered_200_def split: http_result.splits)
  have "act_loop r w acct op cookie i ((c # pre) @ rest) results sent =
          act_loop r w acct op cookie (i + 1) (pre @ rest)
            (results @ [classify r (confId_of c) 200 body]) (sent @ [act_request r bp op cookie c])"
    using wf h by (simp add: act_loop_Cons [OF assms(1)] del: act_loop.simps)
  also have "\<dots> =
          act_loop r w acct op cookie (i + 1 + length pre) rest
            ((results @ [classify r (confId_of c) 200 body]) @
               entries_for r bp op cookie (length (sent @ [act_request r bp op cookie c])) pre)
            ((sent @ [act_request r bp op cookie c]) @ map (act_request r bp op cookie) pre)"
    using tl by (intro Cons.IH) simp
  finally show ?case
    using h by (simp add: body_of_def)
qed

lemma length_entries_for [simp]: "length (entries_for r bp op cookie n cs) = length cs"
  by (induction cs arbitrary: n) simp_all

lemma r_confId_classify [simp]: "r_confId (classify r cid status body) = cid"
  by (simp add: classify_def split: option.split)




section \<open>Acting on a batch\<close>

lemma actOnConfirmations_loop:
  assumes "\<not> secret_falsy (identity_secret acct)" and "op = ''allow'' \<or> op = ''cancel''"
    and "confs \<noteq> []" and "getSessionCookieHeader (alignTime r w0) acct = Inr cookie"
  shows "actOnConfirmations r w0 acct op confs =
           (case act_loop r (alignTime r w0) acct op cookie 0 confs [] [] of
              (Inl e, sent) \<Rightarrow> (Inl e, alignTime r w0, sent)
            | (Inr results, sent) \<Rightarrow>
                (if filter (\<lambda>x. \<not> r_success x) results \<noteq> []
                 then Inl (FailedToProcess (map r_confId (filter (\<lambda>x. \<not> r_success x) results)))
                 else Inr results,
                 updateSessionLastUsed (alignTime r w0) (acc_id acct), sent))"
  using assms
  by (auto simp: actOnConfirmations_def Let_def split: sum.splits prod.splits)




lemma act_complete:
  assumes "\<not> secret_falsy (identity_secret acct)" and "op = ''allow'' \<or> op = ''cancel''"
    and "getSessionCookieHeader (alignTime r w0) acct = Inr cookie"
    and "generateConfirmationQueryParams (alignTime r w0) acct op = Inr bp"
    and "confs \<noteq> []" and "all_answered_200 r bp op cookie 0 confs"
  shows "actOnConfirmations r w0 acct op confs =
           (if filter (\<lambda>x. \<not> r_success x) (entries_for r bp op cookie 0 confs) \<noteq> []
            then Inl (FailedToProcess
                   (map r_confId (filter (\<lambda>x. \<not> r_success x) (entries_for r bp op cookie 0 confs))))
            else Inr (entries_for r bp op cookie 0 confs),
            updateSessionLastUsed (alignTime r w0) (acc_id acct),
            map (act_request r bp op cookie) confs)"
proof -
  have "act_loop r (alignTime r w0) acct op cookie 0 (confs @ []) [] [] =
          act_loop r (alignTime r w0) acct op cookie (0 + length confs) []
            ([] @ entries_for r bp op cookie (length ([] :: request list)) confs)
            ([] @ map (act_request r bp op cookie) confs)"
    using assms(6) by (intro act_loop_answered_200 [OF assms(4)]) simp
  then have "act_loop r (alignTime r w0) acct op cookie 0 confs [] [] =
          (Inr (entries_for r bp op cookie 0 confs), map (act_request r bp op cookie) confs)"
    by simp
  then show ?thesis
    using assms(1,2,3,5) by (simp add: actOnConfirmations_loop [of acct op confs r w0 cookie])
qed

section \<open>The session requirement\<close>

lemma getSessionCookieHeader_tokens:
  "getSessionCookieHeader w acct =
     (if str_truthy (fst (session_tokens w acct)) \<and> str_truthy (snd (session_tokens w acct))
      then Inr (''sessionid='' @ str_text (fst (session_tokens w acct)) @
                ''; steamLoginSecure='' @ str_text (snd (session_tokens w acct)))
      else Inl LOGIN_REQUIRED)"
  by (auto simp: getSessionCookieHeader_def session_tokens_def getSessionCookiesForAccount_def
      lookup_session_def sessions_def found_sessionid_def found_steamLoginSecure_def
      Let_def str_or_def str_truthy_def str_text_def split: option.splits)

lemma sessions_alignTime [simp]: "sessions (alignTime r w) = sessions w"
  by (simp add: alignTime_def sessions_def split: option.split)

lemma session_tokens_ignore_dates:
  assumes "sessions w (acc_id acct) = Some s"
  shows "session_tokens (w\<lparr>now := n, store_sessions := Some ((sessions w)(acc_id acct \<mapsto>
            s\<lparr>createdAt := c, lastUsed := l\<rparr>))\<rparr>) acct = session_tokens w acct"
  using assms by (simp add: session_tokens_def sessions_def)

lemma fetch_without_tokens:
  assumes "\<not> secret_falsy (identity_secret acct)"
    and "\<not> (str_truthy (fst (session_tokens (alignTime r w0) acct)) \<and>
            str_truthy (snd (session_tokens (alignTime r w0) acct)))"
  shows "fetchConfirmations r w0 acct = (Inl LOGIN_REQUIRED, alignTime r w0, [])"
proof -
  have "getSessionCookieHeader (alignTime r w0) acct = Inl LOGIN_REQUIRED"
    by (simp only: getSessionCookieHeader_tokens assms(2) if_False)
  then show ?thesis
    using assms(1) by (simp add: fetchConfirmations_def Let_def)
qed

lemma act_without_tokens:
  assumes "\<not> secret_falsy (identity_secret acct)" and "op = ''allow'' \<or> op = ''cancel''"
    and "confs \<noteq> []"
    and "\<not> (str_truthy (fst (session_tokens (alignTime r w0) acct)) \<and>
            str_truthy (snd (session_tokens (alignTime r w0) acct)))"
  shows "actOnConfirmations r w0 acct op confs = (Inl LOGIN_REQUIRED, alignTime r w0, [])"
proof -
  have "getSessionCookieHeader (alignTime r w0) acct = Inl LOGIN_REQUIRED"
    by (simp only: getSessionCookieHeader_tokens assms(4) if_False)
  then show ?thesis
    using assms(1,2,3) by (auto simp: actOnConfirmations_def Let_def)
qed

lemma fetch_with_tokens:
  assumes "\<not> secret_falsy (identity_secret acct)"
    and "getSessionCookieHeader (alignTime r w0) acct = Inr cookie"
    and "generateConfirmationQueryParams (alignTime r w0) acct ''conf'' = Inr bp"
    and "http r 0 (GetList bp cookie) = Response 200 body"
    and "parse_body r body = Some d" and "\<not> nullish d"
  shows "fetchConfirmations r w0 acct =
           (Inr (js_or (get_prop d ''conf'') (JArr [])),
            updateSessionLastUsed (alignTime r w0) (acc_id acct), [GetList bp cookie])"
  using assms by (simp add: fetchConfirmations_def Let_def)


section \<open>The calls on a whole batch\<close>

text \<open>Facts about the example inputs, for the instances below.\<close>

lemma demo_secret: "\<not> secret_falsy (identity_secret demo_account)"
  by (simp add: demo_account_def secret_falsy_def)

lemma alignTime_stale_world: "alignTime r stale_world = stale_world"
  by (simp add: alignTime_def stale_world_def)

lemma alignTime_bare_world: "alignTime r bare_world = bare_world"
  by (simp add: alignTime_def bare_world_def)

lemma demo_cookie_header: "getSessionCookieHeader stale_world demo_account = Inr demo_cookie"
  by (simp add: getSessionCookieHeader_def getSessionCookiesForAccount_def stale_world_def
      lookup_session_def found_sessionid_def found_steamLoginSecure_def demo_account_def stale_session_def str_or_def str_truthy_def str_text_def demo_cookie_def)

lemma demo_signed_params:
  "generateConfirmationQueryParams stale_world demo_account tag = Inr (demo_params tag)"
proof -
  have k: "bufferizeSecret (identity_secret demo_account) = Some [0, 0, 0]"
    by (simp add: demo_account_def bufferizeSecret_AAAA)
  have t: "getSteamTime stale_world = 1700000000"
    by (simp add: getSteamTime_def stale_world_def)
  show ?thesis
    by (simp add: generateConfirmationQueryParams_eq t generateConfirmationKey_cases [OF k]
        demo_params_def)
qed

lemma well_formed_examples:
  "well_formed conf_a" "well_formed conf_b" "well_formed conf_c" "\<not> well_formed conf_nokey"
  by (simp_all add: well_formed_def confId_of_def confKey_of_def js_or_def
      conf_a_def conf_b_def conf_c_def conf_nokey_def)

lemma confId_examples:
  "confId_of conf_a = JStr ''1001''" "confId_of conf_b = JStr ''1002''"
  "confId_of conf_c = JStr ''1003''" "confId_of conf_nokey = JStr ''1004''"
  "confKey_of conf_nokey = JUndefined"
  by (simp_all add: confId_of_def confKey_of_def js_or_def
      conf_a_def conf_b_def conf_c_def conf_nokey_def)


lemma demo_ready:
  "getSessionCookieHeader (alignTime r stale_world) demo_account = Inr demo_cookie"
  "generateConfirmationQueryParams (alignTime r stale_world) demo_account tag =
     Inr (demo_params tag)"
  by (simp_all add: alignTime_stale_world demo_cookie_header demo_signed_params)

lemma allow_op: "''allow'' = ''allow'' \<or> ''allow'' = ''cancel''"
  by simp












lemma fetch_sends_request:
  assumes "\<not> secret_falsy (identity_secret acct)"
    and "getSessionCookieHeader (alignTime r w0) acct = Inr cookie"
    and "generateConfirmationQueryParams (alignTime r w0) acct ''conf'' = Inr bp"
  shows "snd (snd (fetchConfirmations r w0 acct)) = [GetList bp cookie]"
  using assms
  by (simp add: fetchConfirmations_def Let_def split: http_result.split option.split)

text \<open>
  Claim C4, amended. \<open>fetchConfirmations\<close> and \<open>actOnConfirmations\<close> require only that
  a session id and a login token are available, from the stored session record or else
  from the \<open>Session\<close> block of the imported account file; when one of them is missing
  they fail with \<open>LOGIN_REQUIRED\<close> before any remote call. The age and idle expiry of
  the record is not consulted: the session id and token found do not depend on the
  current time, \<open>createdAt\<close> or \<open>lastUsed\<close>, and with both present the list request is
  sent.
\<close>

theorem session_requirement:
  assumes "\<not> secret_falsy (identity_secret acct)"
  shows "(getSessionCookieHeader w acct = Inl LOGIN_REQUIRED \<longleftrightarrow>
            \<not> (str_truthy (fst (session_tokens w acct)) \<and>
               str_truthy (snd (session_tokens w acct)))) \<and>
         (\<not> (str_truthy (fst (session_tokens (alignTime r w0) acct)) \<and>
             str_truthy (snd (session_tokens (alignTime r w0) acct))) \<longrightarrow>
            fetchConfirmations r w0 acct = (Inl LOGIN_REQUIRED, alignTime r w0, []) \<and>
            ((op = ''allow'' \<or> op = ''cancel'') \<and> confs \<noteq> [] \<longrightarrow>
               actOnConfirmations r w0 acct op confs = (Inl LOGIN_REQUIRED, alignTime r w0, []))) \<and>
         (getSessionCookieHeader (alignTime r w0) acct = Inr cookie \<and>
          generateConfirmationQueryParams (alignTime r w0) acct ''conf'' = Inr bp \<longrightarrow>
            snd (snd (fetchConfirmations r w0 acct)) = [GetList bp cookie]) \<and>
         (sessions w (acc_id acct) = Some s \<longrightarrow>
            session_tokens (w\<lparr>now := n, store_sessions := Some ((sessions w)(acc_id acct \<mapsto>
               s\<lparr>createdAt := c, lastUsed := l\<rparr>))\<rparr>) acct = session_tokens w acct)"
proof -
  have a: "getSessionCookieHeader w acct = Inl LOGIN_REQUIRED \<longleftrightarrow>
            \<not> (str_truthy (fst (session_tokens w acct)) \<and>
               str_truthy (snd (session_tokens w acct)))"
    by (simp add: getSessionCookieHeader_tokens)
  show ?thesis
    using a fetch_without_tokens [OF assms, of r w0] act_without_tokens [OF assms, of op confs r w0]
      fetch_sends_request [OF assms, of r w0 cookie bp]
      session_tokens_ignore_dates [where w = w and acct = acct and s = s and n = n and c = c and l = l]
    by blast
qed

text \<open>An account with no stored session and no session in its account file.\<close>

theorem session_requirement_witness:
  "fetchConfirmations remote_ok bare_world demo_account = (Inl LOGIN_REQUIRED, bare_world, []) \<and>
   actOnConfirmations remote_ok bare_world demo_account ''allow'' [conf_a] =
     (Inl LOGIN_REQUIRED, bare_world, [])"
proof -
  have t: "\<not> (str_truthy (fst (session_tokens (alignTime remote_ok bare_world) demo_account)) \<and>
             str_truthy (snd (session_tokens (alignTime remote_ok bare_world) demo_account)))"
    by (simp add: alignTime_bare_world session_tokens_def example_sessions
        demo_account_def str_or_def str_truthy_def)
  from session_requirement [OF demo_secret, of bare_world remote_ok bare_world "''allow''" "[conf_a]"] t
  show ?thesis
    by (simp add: alignTime_bare_world)
qed

text \<open>Claim C4 as stated fails: a session created at time 0 is \<open>SESSION_EXPIRED\<close> for
  \<open>isSessionValid\<close>, yet both calls send their requests with it and succeed.\<close>

theorem expired_session_still_used:
  "isSessionValid stale_world ''76561198000000001'' = Invalid SESSION_EXPIRED \<and>
   fetchConfirmations remote_ok stale_world demo_account =
     (Inr (JArr []), updateSessionLastUsed stale_world ''76561198000000001'',
      [GetList (demo_params ''conf'') demo_cookie]) \<and>
   actOnConfirmations remote_ok stale_world demo_account ''allow'' [conf_a] =
     (Inr [\<lparr>r_confId = JStr ''1001'', r_success = True, r_error = None, r_message = None\<rparr>],
      updateSessionLastUsed stale_world ''76561198000000001'',
      [act_request remote_ok (demo_params ''allow'') ''allow'' demo_cookie conf_a])"
proof -
  have v: "isSessionValid stale_world ''76561198000000001'' = Invalid SESSION_EXPIRED"
    by (simp add: isSessionValid_stored [OF example_sessions(2)] stale_session_def
        spec_expired_def time_ms_def example_now)
  have i: "acc_id demo_account = ''76561198000000001''"
    by (simp add: demo_account_def)
  have h: "http remote_ok 0 (GetList (demo_params ''conf'') demo_cookie) = Response 200 success_body"
    by (simp add: remote_ok_def)
  have b: "parse_body remote_ok success_body = Some success_body"
    by (simp add: parse_body_def success_body_def)
  have nn: "\<not> nullish success_body"
    by (simp add: nullish_def success_body_def)
  have f: "fetchConfirmations remote_ok stale_world demo_account =
     (Inr (JArr []), updateSessionLastUsed stale_world ''76561198000000001'',
      [GetList (demo_params ''conf'') demo_cookie])"
    using fetch_with_tokens [OF demo_secret demo_ready(1) demo_ready(2) h b nn]
    by (simp add: alignTime_stale_world i success_body_def js_or_def)
  have p: "all_answered_200 remote_ok (demo_params ''allow'') ''allow'' demo_cookie 0 [conf_a]"
    by (simp add: well_formed_examples answered_200_def remote_ok_def)
  have e: "entries_for remote_ok (demo_params ''allow'') ''allow'' demo_cookie 0 [conf_a] =
     [\<lparr>r_confId = JStr ''1001'', r_success = True, r_error = None, r_message = None\<rparr>]"
    by (simp add: remote_ok_def confId_examples body_of_def classify_def parse_body_def
        success_body_def)
  have n: "[conf_a] \<noteq> []"
    by simp
  have a: "actOnConfirmations remote_ok stale_world demo_account ''allow'' [conf_a] =
     (Inr [\<lparr>r_confId = JStr ''1001'', r_success = True, r_error = None, r_message = None\<rparr>],
      updateSessionLastUsed stale_world ''76561198000000001'',
      [act_request remote_ok (demo_params ''allow'') ''allow'' demo_cookie conf_a])"
    using act_complete [OF demo_secret allow_op demo_ready(1) demo_ready(2) n p, unfolded e]
    by (simp add: alignTime_stale_world i)
  from v f a show ?thesis
    by simp
qed


end
